theory Spec2Isabelle
  imports Complex_Main "HOL-Library.Sublist"
begin

section \<open>Data model of the multiplayer manager\<close>

text \<open>
  The development embeds the class \<open>MultiplayerManager\<close> of the game's multiplayer module
  (the room synchroniser).  JavaScript numbers that the manager only copies (coordinates,
  level indices) are reals; timestamps (\<open>Date.now()\<close>, milliseconds) are integers, since
  the manager subtracts and compares them.
\<close>

type_synonym number = real

text \<open>The interface \<open>PlayerState\<close> of the engine; the fields carry the prefix \<open>p_\<close>.\<close>

record PlayerState =
  p_x :: number
  p_y :: number
  p_vx :: number
  p_vy :: number
  p_width :: number
  p_height :: number
  p_onGround :: bool
  p_color :: string
  p_name :: string
  p_isDead :: bool
  p_hasWon :: bool
  p_deaths :: number

text \<open>The interface \<open>RemotePlayerInfo\<close>: \<open>{ id, name, color, lastSeen }\<close>.\<close>

record RemotePlayerInfo =
  info_id :: string
  info_name :: string
  info_color :: string
  lastSeen :: int

text \<open>
  The tagged union \<open>MultiplayerMessage\<close>, one constructor per \<open>type\<close> tag, the
  arguments in the order of the fields of the source.
\<close>

datatype MultiplayerMessage =
    PlayerUpdate PlayerState string     \<comment> \<open>player, peerId\<close>
  | LevelChange number string           \<comment> \<open>level, peerId\<close>
  | PlayerJoin string string string     \<comment> \<open>peerId, name, color\<close>
  | PlayerLeft string                   \<comment> \<open>peerId\<close>
  | StartGame number string             \<comment> \<open>level, peerId\<close>
  | Heartbeat string string string      \<comment> \<open>peerId, name, color\<close>

fun peerIdOf :: "MultiplayerMessage \<Rightarrow> string" where
  "peerIdOf (PlayerUpdate player p) = p"
| "peerIdOf (LevelChange level p) = p"
| "peerIdOf (PlayerJoin p n c) = p"
| "peerIdOf (PlayerLeft p) = p"
| "peerIdOf (StartGame level p) = p"
| "peerIdOf (Heartbeat p n c) = p"

text \<open>
  A message as it travels: \<open>MultiplayerMessage & { _msgId?: string }\<close>.  The optional
  field is \<open>None\<close> when absent.
\<close>

record wire =
  body :: MultiplayerMessage
  msgId :: "string option"

text \<open>
  JavaScript truthiness of the string \<open>msg._msgId\<close> when it is present: the empty
  string is falsy, every other string is truthy.
\<close>

definition truthy :: "string \<Rightarrow> bool" where
  "truthy s = (s \<noteq> [])"

text \<open>
  The texts handed to \<open>onStatusChange\<close> are template literals with a coloured dot in
  front; each constructor stands for one template and carries the interpolated name:
  \<open>RoomReady\<close> for the "room ready" notice, \<open>Joined n\<close> for "n a rejoint la salle !",
  \<open>Disconnected n\<close> for "n s'est deconnecte" (stale eviction) and \<open>Quit n\<close> for
  "n a quitte" (explicit departure).
\<close>

datatype status = RoomReady | Joined string | Disconnected string | Quit string

text \<open>
  The value of a storage record.  \<open>broadcast\<close> writes \<open>JSON.stringify({from, data})\<close>,
  which \<open>JSON.parse\<close> reads back as the same wrapper: \<open>WrapperText from data\<close>.  Any
  other text (one that \<open>JSON.parse\<close> rejects, or whose value has no such shape, so
  that reading it throws inside the handler's \<open>try\<close>) is \<open>OtherText\<close>.
\<close>

datatype storedText = OtherText string | WrapperText string wire

record StorageEvent =
  e_key :: "string option"
  e_newValue :: "storedText option"

datatype timer = ReadyTimer | AnnounceTimer | RemoveKeyTimer string

datatype interval = HeartbeatInterval | CleanupInterval

text \<open>
  What an operation does to the outside, in the order of the source: calls of the
  handlers the application installed, and calls of the platform.
\<close>

datatype effect =
    StatusChange status                       \<comment> \<open>\<open>onStatusChange(text)\<close>\<close>
  | ConnectionChange nat                      \<comment> \<open>\<open>onConnectionChange(count)\<close>\<close>
  | PlayerListChange "RemotePlayerInfo list"  \<comment> \<open>\<open>onPlayerListChange(players)\<close>\<close>
  | Message wire                              \<comment> \<open>\<open>onMessage(msg)\<close>\<close>
  | GameStart number                          \<comment> \<open>\<open>onGameStart(level)\<close>\<close>
  | PostMessage wire                          \<comment> \<open>\<open>bcChannel.postMessage(msgWithId)\<close>\<close>
  | SetItem string storedText                 \<comment> \<open>\<open>localStorage.setItem(key, text)\<close>\<close>
  | RemoveItem string                         \<comment> \<open>\<open>localStorage.removeItem(key)\<close>\<close>
  | SetTimeout timer nat                      \<comment> \<open>\<open>setTimeout(callback, delay)\<close>\<close>
  | SetInterval interval nat                  \<comment> \<open>\<open>setInterval(callback, period)\<close>\<close>
  | ClearInterval interval                    \<comment> \<open>\<open>clearInterval(handle)\<close>\<close>
  | OpenChannel string                        \<comment> \<open>\<open>new BroadcastChannel(name)\<close>\<close>
  | CloseChannel                              \<comment> \<open>\<open>bcChannel.close()\<close>\<close>
  | AddStorageListener                        \<comment> \<open>\<open>window.addEventListener('storage', h)\<close>\<close>
  | RemoveStorageListener                     \<comment> \<open>\<open>window.removeEventListener('storage', h)\<close>\<close>

text \<open>
  The fields of the class.  \<open>remotePlayers\<close> is a JavaScript \<open>Map\<close> and
  \<open>seenMessageIds\<close> a \<open>Set\<close>: both iterate in insertion order, so they are lists
  in that order.  A handler field is \<open>True\<close> when a function is installed and
  \<open>False\<close> when it is \<open>null\<close>; \<open>bcChannel\<close>, \<open>storageHandler\<close> and the two
  interval handles likewise say whether the field is non-null.
\<close>

record MultiplayerManager =
  peerId :: string
  roomId :: string
  isHost :: bool
  playerName :: string
  playerColor :: string
  remotePlayers :: "(string \<times> RemotePlayerInfo) list"
  onMessage :: bool
  onConnectionChange :: bool
  onError :: bool
  onStatusChange :: bool
  onGameStart :: bool
  onPlayerListChange :: bool
  bcChannel :: bool
  storageHandler :: bool
  heartbeatInterval :: bool
  cleanupInterval :: bool
  destroyed :: bool
  seenMessageIds :: "string list"

section \<open>The containers of the platform\<close>

text \<open>\<open>Map.prototype.has\<close>, \<open>get\<close>, \<open>set\<close>, \<open>delete\<close>, \<open>size\<close> and \<open>values\<close>.\<close>

fun Map_get :: "('k \<times> 'v) list \<Rightarrow> 'k \<Rightarrow> 'v option" where
  "Map_get [] k = None"
| "Map_get ((k', v) # es) k = (if k' = k then Some v else Map_get es k)"

definition Map_has :: "('k \<times> 'v) list \<Rightarrow> 'k \<Rightarrow> bool" where
  "Map_has es k = (Map_get es k \<noteq> None)"

text \<open>\<open>set\<close> keeps the position of a key that is present and appends a new key.\<close>

fun Map_set :: "'k \<Rightarrow> 'v \<Rightarrow> ('k \<times> 'v) list \<Rightarrow> ('k \<times> 'v) list" where
  "Map_set k v [] = [(k, v)]"
| "Map_set k v ((k', v') # es) =
     (if k' = k then (k, v) # es else (k', v') # Map_set k v es)"

fun Map_delete :: "'k \<Rightarrow> ('k \<times> 'v) list \<Rightarrow> ('k \<times> 'v) list" where
  "Map_delete k [] = []"
| "Map_delete k ((k', v') # es) =
     (if k' = k then Map_delete k es else (k', v') # Map_delete k es)"

definition Map_size :: "('k \<times> 'v) list \<Rightarrow> nat" where
  "Map_size es = length es"

definition Map_values :: "('k \<times> 'v) list \<Rightarrow> 'v list" where
  "Map_values es = map snd es"

text \<open>\<open>Set.prototype.has\<close> and \<open>add\<close>; \<open>add\<close> of a present value changes nothing.\<close>

definition Set_has :: "'a list \<Rightarrow> 'a \<Rightarrow> bool" where
  "Set_has xs x = (x \<in> set xs)"

definition Set_add :: "'a list \<Rightarrow> 'a \<Rightarrow> 'a list" where
  "Set_add xs x = (if x \<in> set xs then xs else xs @ [x])"

text \<open>
  \<open>arr.slice(-n)\<close>: the last \<open>n\<close> elements, the whole array when it is shorter
  (the subtraction on \<open>nat\<close> stops at 0, as the start index of \<open>slice\<close> does).
\<close>

definition slice_last :: "nat \<Rightarrow> 'a list \<Rightarrow> 'a list" where
  "slice_last n arr = drop (length arr - n) arr"

text \<open>\<open>new Set(arr)\<close>: the values of \<open>arr\<close> in order, a repeated value kept once.\<close>

fun Set_of :: "'a list \<Rightarrow> 'a list" where
  "Set_of [] = []"
| "Set_of (x # xs) = x # Set_of (filter (\<lambda>y. y \<noteq> x) xs)"

text \<open>
  \<open>Number.prototype.toString(radix)\<close> on an integer (a minus sign, then the digits of
  the magnitude), and the decimal text of a timestamp inside a template literal.  The
  readings of \<open>Date.now()\<close> are integers that a JavaScript number holds exactly
  (magnitude below \<open>2 ^ 53\<close>); the decimal text is modelled for these, below the
  magnitude \<open>10 ^ 21\<close> from which JavaScript writes a number in exponent form.
\<close>

definition digit_char :: "nat \<Rightarrow> char" where
  "digit_char d = ''0123456789abcdefghijklmnopqrstuvwxyz'' ! d"

function toString_radix :: "nat \<Rightarrow> nat \<Rightarrow> string" where
  "toString_radix b n =
     (if b < 2 \<or> n < b then [digit_char n]
      else toString_radix b (n div b) @ [digit_char (n mod b)])"
  by pat_completeness auto
termination
  by (relation "measure (\<lambda>(b, n). n)") auto

definition toString_int :: "nat \<Rightarrow> int \<Rightarrow> string" where
  "toString_int b t = (if t < 0 then ''-'' @ toString_radix b (nat (- t))
                       else toString_radix b (nat t))"

definition number_text :: "int \<Rightarrow> string" where
  "number_text t = toString_int 10 t"

section \<open>Operations\<close>

text \<open>An optional call \<open>handler?.(arg)\<close>: nothing happens when the field is null.\<close>

definition call :: "bool \<Rightarrow> effect \<Rightarrow> effect list" where
  "call installed e = (if installed then [e] else [])"

definition getConnectedCount :: "MultiplayerManager \<Rightarrow> nat" where
  "getConnectedCount m = Map_size (remotePlayers m)"

definition getPlayerList :: "MultiplayerManager \<Rightarrow> RemotePlayerInfo list" where
  "getPlayerList m = Map_values (remotePlayers m)"

definition notifyConnectionChange :: "MultiplayerManager \<Rightarrow> effect list" where
  "notifyConnectionChange m =
     (let count = Map_size (remotePlayers m) in
      call (onConnectionChange m) (ConnectionChange count) @
      call (onPlayerListChange m) (PlayerListChange (Map_values (remotePlayers m))))"

text \<open>
  The branch shared by \<open>case 'heartbeat'\<close> and \<open>case 'playerJoin'\<close>; \<open>isJoin\<close> is the
  test \<open>msg.type === 'playerJoin'\<close>.
\<close>

definition handleJoinOrHeartbeat ::
  "int \<Rightarrow> MultiplayerManager \<Rightarrow> string \<Rightarrow> string \<Rightarrow> string \<Rightarrow> bool \<Rightarrow>
   MultiplayerManager \<times> effect list" where
  "handleJoinOrHeartbeat now m p n c isJoin =
     (let wasKnown = Map_has (remotePlayers m) p;
          m' = m\<lparr>remotePlayers :=
                 Map_set p \<lparr>info_id = p, info_name = n, info_color = c, lastSeen = now\<rparr>
                   (remotePlayers m)\<rparr>
      in if \<not> wasKnown
         then (m', call (onStatusChange m') (StatusChange (Joined n)) @
                   notifyConnectionChange m' @
                   (if isJoin then [SetTimeout AnnounceTimer 50] else []))
         else (m', []))"

definition handleIncomingMessage ::
  "int \<Rightarrow> MultiplayerManager \<Rightarrow> wire \<Rightarrow> MultiplayerManager \<times> effect list" where
  "handleIncomingMessage now m msg =
     (if peerIdOf (body msg) = peerId m then (m, [])
      else case body msg of
        Heartbeat p n c \<Rightarrow> handleJoinOrHeartbeat now m p n c False
      | PlayerJoin p n c \<Rightarrow> handleJoinOrHeartbeat now m p n c True
      | PlayerUpdate player p \<Rightarrow>
          (case Map_get (remotePlayers m) p of
             Some existing \<Rightarrow>
               (m\<lparr>remotePlayers := Map_set p (existing\<lparr>lastSeen := now\<rparr>) (remotePlayers m)\<rparr>,
                call (onMessage m) (Message msg))
           | None \<Rightarrow>
               (let m' = m\<lparr>remotePlayers :=
                           Map_set p \<lparr>info_id = p, info_name = p_name player,
                                      info_color = p_color player, lastSeen = now\<rparr>
                             (remotePlayers m)\<rparr>
                in (m', notifyConnectionChange m' @ call (onMessage m') (Message msg))))
      | StartGame level p \<Rightarrow> (m, call (onGameStart m) (GameStart level))
      | PlayerLeft p \<Rightarrow>
          (let leaving = Map_get (remotePlayers m) p;
               m' = m\<lparr>remotePlayers := Map_delete p (remotePlayers m)\<rparr>
           in (m', (case leaving of
                      Some l \<Rightarrow> call (onStatusChange m) (StatusChange (Quit (info_name l)))
                    | None \<Rightarrow> []) @
                   notifyConnectionChange m' @ call (onMessage m') (Message msg)))
      | LevelChange level p \<Rightarrow> (m, call (onMessage m) (Message msg)))"

text \<open>
  The lines under the comment "Keep set small": after \<open>add\<close>, a set of more than 200
  ids is replaced by \<open>new Set(arr.slice(-100))\<close>.
\<close>

definition rememberMessageId :: "string list \<Rightarrow> string \<Rightarrow> string list" where
  "rememberMessageId seen i =
     (let added = Set_add seen i
      in if length added > 200 then Set_of (slice_last 100 added) else added)"

text \<open>
  The block under the comment "Deduplicate", which both transports run word for word
  before \<open>handleIncomingMessage\<close>: \<open>None\<close> is its \<open>return\<close>, \<open>Some\<close> the manager
  that goes on to handle the message.
\<close>

definition deduplicate :: "MultiplayerManager \<Rightarrow> wire \<Rightarrow> MultiplayerManager option" where
  "deduplicate m msg =
     (case msgId msg of
        None \<Rightarrow> Some m
      | Some i \<Rightarrow>
          if truthy i \<and> Set_has (seenMessageIds m) i then None
          else if truthy i
          then Some (m\<lparr>seenMessageIds := rememberMessageId (seenMessageIds m) i\<rparr>)
          else Some m)"

text \<open>The handler \<open>bcChannel.onmessage\<close>; \<open>msg\<close> is \<open>event.data\<close>.\<close>

definition bcChannel_onmessage ::
  "int \<Rightarrow> MultiplayerManager \<Rightarrow> wire \<Rightarrow> MultiplayerManager \<times> effect list" where
  "bcChannel_onmessage now m msg =
     (if destroyed m then (m, [])
      else case deduplicate m msg of
        None \<Rightarrow> (m, [])
      | Some m1 \<Rightarrow> handleIncomingMessage now m1 msg)"

text \<open>The prefix \<open>cr-<roomId>-\<close> of the storage keys of a room.\<close>

definition roomKeyPrefix :: "MultiplayerManager \<Rightarrow> string" where
  "roomKeyPrefix m = ''cr-'' @ roomId m @ ''-''"

text \<open>The listener \<open>storageHandler\<close> of the window's \<open>storage\<close> events.\<close>

definition storageHandler_onstorage ::
  "int \<Rightarrow> MultiplayerManager \<Rightarrow> StorageEvent \<Rightarrow> MultiplayerManager \<times> effect list" where
  "storageHandler_onstorage now m e =
     (if destroyed m then (m, [])
      else case e_key e of
        None \<Rightarrow> (m, [])
      | Some k \<Rightarrow>
          if \<not> truthy k \<or> \<not> prefix (roomKeyPrefix m) k then (m, [])
          else (case e_newValue e of
             None \<Rightarrow> (m, [])
           | Some (OtherText t) \<Rightarrow> (m, [])
           | Some (WrapperText from msg) \<Rightarrow>
               if from = peerId m then (m, [])
               else (case deduplicate m msg of
                  None \<Rightarrow> (m, [])
                | Some m1 \<Rightarrow> handleIncomingMessage now m1 msg)))"

text \<open>
  What \<open>broadcast\<close> reads from the platform: the two readings of \<open>Date.now()\<close>, the two
  texts \<open>Math.random().toString(36).slice(2, 6)\<close>, and whether \<open>localStorage.setItem\<close>
  returns (\<open>True\<close>) or throws.
\<close>

record sendEnv =
  idTime :: int
  idRandom :: string
  keyTime :: int
  keyRandom :: string
  storageWritable :: bool

definition broadcast :: "sendEnv \<Rightarrow> MultiplayerManager \<Rightarrow> MultiplayerMessage \<Rightarrow> effect list" where
  "broadcast env m msg =
     (if destroyed m then []
      else
        let msgWithId =
              \<lparr>body = msg,
               msgId = Some (peerId m @ ''-'' @ number_text (idTime env) @ ''-'' @ idRandom env)\<rparr>;
            key = roomKeyPrefix m @ number_text (keyTime env) @ ''-'' @ keyRandom env
        in (if bcChannel m then [PostMessage msgWithId] else []) @
           (if storageWritable env
            then [SetItem key (WrapperText (peerId m) msgWithId),
                  SetTimeout (RemoveKeyTimer key) 600]
            else []))"

definition announceJoin :: "sendEnv \<Rightarrow> MultiplayerManager \<Rightarrow> effect list" where
  "announceJoin env m =
     (if destroyed m then []
      else broadcast env m (PlayerJoin (peerId m) (playerName m) (playerColor m)))"

definition sendPlayerUpdate :: "sendEnv \<Rightarrow> MultiplayerManager \<Rightarrow> PlayerState \<Rightarrow> effect list" where
  "sendPlayerUpdate env m player =
     broadcast env m
       (PlayerUpdate
          \<lparr>p_x = p_x player, p_y = p_y player, p_vx = p_vx player, p_vy = p_vy player,
           p_width = p_width player, p_height = p_height player,
           p_onGround = p_onGround player, p_color = p_color player,
           p_name = p_name player, p_isDead = p_isDead player,
           p_hasWon = p_hasWon player, p_deaths = p_deaths player\<rparr>
          (peerId m))"

definition sendLevelChange :: "sendEnv \<Rightarrow> MultiplayerManager \<Rightarrow> number \<Rightarrow> effect list" where
  "sendLevelChange env m level = broadcast env m (LevelChange level (peerId m))"

definition startGame :: "sendEnv \<Rightarrow> MultiplayerManager \<Rightarrow> number \<Rightarrow> effect list" where
  "startGame env m level = broadcast env m (StartGame level (peerId m))"

text \<open>The callbacks of the timers the constructor starts.\<close>

definition readyTimeout :: "MultiplayerManager \<Rightarrow> effect list" where
  "readyTimeout m =
     (if \<not> destroyed m then call (onStatusChange m) (StatusChange RoomReady) else [])"

definition heartbeatTick :: "sendEnv \<Rightarrow> MultiplayerManager \<Rightarrow> effect list" where
  "heartbeatTick env m =
     (if destroyed m then []
      else broadcast env m (Heartbeat (peerId m) (playerName m) (playerColor m)))"

text \<open>
  The \<open>forEach\<close> of the cleanup interval.  It visits the entries in insertion order;
  deleting the entry being visited does not disturb the visit of the others, so the
  entries still to visit are the third argument.  The flag is the variable \<open>changed\<close>.
\<close>

fun cleanupScan ::
  "int \<Rightarrow> MultiplayerManager \<Rightarrow> (string \<times> RemotePlayerInfo) list \<Rightarrow> bool \<Rightarrow>
   MultiplayerManager \<times> effect list \<times> bool" where
  "cleanupScan now m [] changed = (m, [], changed)"
| "cleanupScan now m ((pid, player) # rest) changed =
     (if now - lastSeen player > 3000
      then (case cleanupScan now (m\<lparr>remotePlayers := Map_delete pid (remotePlayers m)\<rparr>)
                   rest True of
              (m', effs, changed') \<Rightarrow>
                (m', call (onStatusChange m) (StatusChange (Disconnected (info_name player))) @
                     call (onMessage m) (Message \<lparr>body = PlayerLeft pid, msgId = None\<rparr>) @
                     effs,
                 changed'))
      else cleanupScan now m rest changed)"

definition cleanupTick :: "int \<Rightarrow> MultiplayerManager \<Rightarrow> MultiplayerManager \<times> effect list" where
  "cleanupTick now m =
     (if destroyed m then (m, [])
      else case cleanupScan now m (remotePlayers m) False of
        (m', effs, changed) \<Rightarrow>
          (m', effs @ (if changed then notifyConnectionChange m' else [])))"

text \<open>
  \<open>destroy()\<close>.  \<open>storageKeys\<close> are the keys \<open>localStorage.key(0)\<close>,
  \<open>localStorage.key(1)\<close>, ... that the final loop reads (none when the store is
  unavailable and the loop throws).
\<close>

definition destroy ::
  "sendEnv \<Rightarrow> string list \<Rightarrow> MultiplayerManager \<Rightarrow> MultiplayerManager \<times> effect list" where
  "destroy env storageKeys m =
     (let m1 = m\<lparr>destroyed := True\<rparr>
      in (m1\<lparr>remotePlayers := []\<rparr>,
          broadcast env m1 (PlayerLeft (peerId m1)) @
          (if heartbeatInterval m1 then [ClearInterval HeartbeatInterval] else []) @
          (if cleanupInterval m1 then [ClearInterval CleanupInterval] else []) @
          (if bcChannel m1 then [CloseChannel] else []) @
          (if storageHandler m1 then [RemoveStorageListener] else []) @
          map RemoveItem
            (filter (\<lambda>k. truthy k \<and> prefix (roomKeyPrefix m1) k) storageKeys)))"

text \<open>
  The constructor.  \<open>rnd\<close> is \<open>Math.random().toString(36).substring(2, 10)\<close>, \<open>now\<close>
  the reading of \<open>Date.now()\<close>, \<open>bcSupported\<close> whether \<open>new BroadcastChannel\<close>
  returns; the handler fields start as null.
\<close>

definition newManager ::
  "string \<Rightarrow> int \<Rightarrow> bool \<Rightarrow> sendEnv \<Rightarrow> string \<Rightarrow> string \<Rightarrow> string \<Rightarrow> bool \<Rightarrow>
   MultiplayerManager \<times> effect list" where
  "newManager rnd now bcSupported env room pname pcolor host =
     (let m = \<lparr>peerId = ''p-'' @ rnd @ ''-'' @ toString_int 36 now,
               roomId = room, isHost = host, playerName = pname, playerColor = pcolor,
               remotePlayers = [],
               onMessage = False, onConnectionChange = False, onError = False,
               onStatusChange = False, onGameStart = False, onPlayerListChange = False,
               bcChannel = bcSupported, storageHandler = True,
               heartbeatInterval = True, cleanupInterval = True,
               destroyed = False, seenMessageIds = []\<rparr>
      in (m, (if bcSupported then [OpenChannel (''cuberunner-room-'' @ room)] else []) @
             [AddStorageListener, SetTimeout ReadyTimer 100,
              SetInterval HeartbeatInterval 400, SetInterval CleanupInterval 2000] @
             announceJoin env m @
             [SetTimeout AnnounceTimer 200, SetTimeout AnnounceTimer 600,
              SetTimeout AnnounceTimer 1200, SetTimeout AnnounceTimer 2500]))"

section \<open>Deliveries and runs\<close>

text \<open>
  A message reaches the manager through one of the two transports.  \<open>receive\<close> is the
  handler of the transport, \<open>receiveAll\<close> a sequence of deliveries with the reading of
  the clock at each.
\<close>

datatype delivery = ViaChannel wire | ViaStorage StorageEvent

fun receive :: "int \<Rightarrow> MultiplayerManager \<Rightarrow> delivery \<Rightarrow> MultiplayerManager \<times> effect list" where
  "receive now m (ViaChannel msg) = bcChannel_onmessage now m msg"
| "receive now m (ViaStorage e) = storageHandler_onstorage now m e"

fun receiveAll ::
  "MultiplayerManager \<Rightarrow> (int \<times> delivery) list \<Rightarrow> MultiplayerManager \<times> effect list" where
  "receiveAll m [] = (m, [])"
| "receiveAll m ((now, d) # ds) =
     (case receive now m d of
        (m1, effs1) \<Rightarrow> (case receiveAll m1 ds of (m2, effs2) \<Rightarrow> (m2, effs1 @ effs2)))"

text \<open>The message a delivery carries, whatever the manager then does with it.\<close>

fun carried :: "delivery \<Rightarrow> wire option" where
  "carried (ViaChannel msg) = Some msg"
| "carried (ViaStorage e) =
     (case e_newValue e of Some (WrapperText from msg) \<Rightarrow> Some msg | _ \<Rightarrow> None)"

text \<open>
  The message of a delivery that gets past the guards of its transport: the manager is
  live and, on the storage transport, the key is one of the room and the record is a
  wrapper written by another peer.
\<close>

fun inbound :: "MultiplayerManager \<Rightarrow> delivery \<Rightarrow> wire option" where
  "inbound m (ViaChannel msg) = (if destroyed m then None else Some msg)"
| "inbound m (ViaStorage e) =
     (if destroyed m then None
      else case e_key e of
        None \<Rightarrow> None
      | Some k \<Rightarrow>
          if truthy k \<and> prefix (roomKeyPrefix m) k
          then (case e_newValue e of
                  Some (WrapperText from msg) \<Rightarrow> if from = peerId m then None else Some msg
                | _ \<Rightarrow> None)
          else None)"

text \<open>A message that bears an id: the field is present and truthy.\<close>

definition bearsId :: "wire \<Rightarrow> string \<Rightarrow> bool" where
  "bearsId msg i = (msgId msg = Some i \<and> truthy i)"

text \<open>A message is a duplicate when the id it bears is in the set of seen ids.\<close>

definition duplicate :: "MultiplayerManager \<Rightarrow> wire \<Rightarrow> bool" where
  "duplicate m msg =
     (case msgId msg of None \<Rightarrow> False | Some i \<Rightarrow> truthy i \<and> Set_has (seenMessageIds m) i)"

text \<open>
  An accepted message: the delivery passes its transport, the message is no duplicate
  and its sender is another peer.
\<close>

definition accepted :: "MultiplayerManager \<Rightarrow> delivery \<Rightarrow> wire \<Rightarrow> bool" where
  "accepted m d msg =
     (inbound m d = Some msg \<and> \<not> duplicate m msg \<and> peerIdOf (body msg) \<noteq> peerId m)"

text \<open>The kinds of effect the properties below count.\<close>

fun isSend :: "effect \<Rightarrow> bool" where
  "isSend (PostMessage msg) = True"
| "isSend (SetItem k t) = True"
| "isSend e = False"

fun isStatus :: "effect \<Rightarrow> bool" where
  "isStatus (StatusChange s) = True"
| "isStatus e = False"

fun isMembership :: "effect \<Rightarrow> bool" where
  "isMembership (ConnectionChange n) = True"
| "isMembership (PlayerListChange l) = True"
| "isMembership e = False"

text \<open>A live manager whose registry is a well-formed \<open>Map\<close>: no key occurs twice.\<close>

definition wellFormed :: "MultiplayerManager \<Rightarrow> bool" where
  "wellFormed m = distinct (map fst (remotePlayers m))"

definition stale :: "int \<Rightarrow> string \<times> RemotePlayerInfo \<Rightarrow> bool" where
  "stale now entry = (now - lastSeen (snd entry) > 3000)"

text \<open>Every entry of the registry is within the liveness window at time \<open>t\<close>.\<close>

definition allFresh :: "int \<Rightarrow> MultiplayerManager \<Rightarrow> bool" where
  "allFresh t m = list_all (\<lambda>entry. \<not> stale t entry) (remotePlayers m)"

text \<open>The departure effects of the eviction of one entry, as the scan fires them.\<close>

definition evictionEffects :: "MultiplayerManager \<Rightarrow> string \<times> RemotePlayerInfo \<Rightarrow> effect list" where
  "evictionEffects m entry =
     call (onStatusChange m) (StatusChange (Disconnected (info_name (snd entry)))) @
     call (onMessage m) (Message \<lparr>body = PlayerLeft (fst entry), msgId = None\<rparr>)"

text \<open>
  In a list of effects, every call of \<open>onConnectionChange\<close> is followed at once by a
  call of \<open>onPlayerListChange\<close>, no call of \<open>onPlayerListChange\<close> stands alone, and
  the count and the list are those of the registry of \<open>m\<close>.
\<close>

fun membershipPaired :: "MultiplayerManager \<Rightarrow> effect list \<Rightarrow> bool" where
  "membershipPaired m [] = True"
| "membershipPaired m (e # effs) =
     (case e of
        ConnectionChange n \<Rightarrow>
          (case effs of
             PlayerListChange l # rest \<Rightarrow>
               n = getConnectedCount m \<and> l = getPlayerList m \<and> n = length l \<and>
               membershipPaired m rest
           | _ \<Rightarrow> False)
      | PlayerListChange l \<Rightarrow> False
      | _ \<Rightarrow> membershipPaired m effs)"

section \<open>Example states\<close>

text \<open>
  A live manager of room \<open>ABCDEF\<close> with every handler installed, two registered peers
  and one seen message id; a heartbeat of a third peer; and 200 distinct message ids.
\<close>

definition demoHeartbeat :: wire where
  "demoHeartbeat =
     \<lparr>body = Heartbeat ''p-dan'' ''Dan'' ''pink'', msgId = Some ''p-dan-5000-zzzz''\<rparr>"

definition demoStorageEvent :: "wire \<Rightarrow> StorageEvent" where
  "demoStorageEvent msg =
     \<lparr>e_key = Some ''cr-ABCDEF-5000-kkkk'',
      e_newValue = Some (WrapperText (peerIdOf (body msg)) msg)\<rparr>"

definition demoEnv :: sendEnv where
  "demoEnv = \<lparr>idTime = 5000, idRandom = ''ab12'', keyTime = 5001, keyRandom = ''cd34'',
              storageWritable = True\<rparr>"

definition bobEntry :: "string \<times> RemotePlayerInfo" where
  "bobEntry = (''p-bob'', \<lparr>info_id = ''p-bob'', info_name = ''Bob'', info_color = ''blue'',
                            lastSeen = 1000\<rparr>)"

definition cyEntry :: "string \<times> RemotePlayerInfo" where
  "cyEntry = (''p-cy'', \<lparr>info_id = ''p-cy'', info_name = ''Cy'', info_color = ''green'',
                          lastSeen = 4000\<rparr>)"

definition demoManager :: MultiplayerManager where
  "demoManager =
     \<lparr>peerId = ''p-me'', roomId = ''ABCDEF'', isHost = True,
      playerName = ''Ana'', playerColor = ''red'',
      remotePlayers =
        [bobEntry, cyEntry],
      onMessage = True, onConnectionChange = True, onError = True,
      onStatusChange = True, onGameStart = True, onPlayerListChange = True,
      bcChannel = True, storageHandler = True,
      heartbeatInterval = True, cleanupInterval = True,
      destroyed = False, seenMessageIds = [''p-bob-900-aaaa'']\<rparr>"

text \<open>
  A timeline: a manager is built at time 0, accepts a heartbeat of Bob at time 1000, and
  its liveness driver runs at times 2000 and 4000.  The state it reaches stays as it is
  until the next event, so it is the state at time 5000.
\<close>

definition bobHeartbeat :: wire where
  "bobHeartbeat =
     \<lparr>body = Heartbeat ''p-bob'' ''Bob'' ''blue'', msgId = Some ''p-bob-1000-aaaa''\<rparr>"

definition staleTimeline :: MultiplayerManager where
  "staleTimeline =
     fst (cleanupTick 4000
       (fst (cleanupTick 2000
         (fst (receive 1000
           (fst (newManager ''k3j9x2ab'' 0 True demoEnv ''ABCDEF'' ''Ana'' ''red'' True))
           (ViaChannel bobHeartbeat))))))"

text \<open>Messages of the third peer Dan, unknown to the example manager, and of Bob.\<close>

definition danState :: PlayerState where
  "danState =
     \<lparr>p_x = 10, p_y = 20, p_vx = 0, p_vy = 0, p_width = 30, p_height = 30,
      p_onGround = True, p_color = ''pink'', p_name = ''Dan'',
      p_isDead = False, p_hasWon = False, p_deaths = 0\<rparr>"

definition danUpdate :: wire where
  "danUpdate = \<lparr>body = PlayerUpdate danState ''p-dan'', msgId = Some ''p-dan-5000-uuuu''\<rparr>"

definition bobLevelChange :: wire where
  "bobLevelChange = \<lparr>body = LevelChange 2 ''p-bob'', msgId = Some ''p-bob-5000-llll''\<rparr>"

definition bobLeft :: wire where
  "bobLeft = \<lparr>body = PlayerLeft ''p-bob'', msgId = Some ''p-bob-5000-qqqq''\<rparr>"

definition danLeft :: wire where
  "danLeft = \<lparr>body = PlayerLeft ''p-dan'', msgId = Some ''p-dan-5000-qqqq''\<rparr>"

definition bobJoin :: wire where
  "bobJoin = \<lparr>body = PlayerJoin ''p-bob'' ''Bobby'' ''navy'', msgId = Some ''p-bob-5000-jjjj''\<rparr>"

definition ownEcho :: wire where
  "ownEcho = \<lparr>body = PlayerJoin ''p-me'' ''Ana'' ''red'', msgId = Some ''p-me-5000-eeee''\<rparr>"

definition demoIds :: "string list" where
  "demoIds = map (\<lambda>n. replicate (Suc n) (CHR ''x'')) [0..<200]"

section \<open>Facts about the containers\<close>

lemma Map_get_set: "Map_get (Map_set k v es) k' = (if k' = k then Some v else Map_get es k')"
  by (induction es) auto

lemma Map_get_delete: "Map_get (Map_delete k es) k' = (if k' = k then None else Map_get es k')"
  by (induction es) auto

lemma Map_delete_filter: "Map_delete k es = filter (\<lambda>e. fst e \<noteq> k) es"
  by (induction es) auto

lemma Map_get_None: "(Map_get es k = None) = (k \<notin> set (map fst es))"
  by (induction es) (force split: if_splits)+

lemma keys_Map_set:
  "map fst (Map_set k v es) = (if k \<in> set (map fst es) then map fst es else map fst es @ [k])"
  by (induction es) (force split: if_splits)+

lemma distinct_Map_set: "distinct (map fst es) \<Longrightarrow> distinct (map fst (Map_set k v es))"
  by (simp add: keys_Map_set)

lemma distinct_Map_delete: "distinct (map fst es) \<Longrightarrow> distinct (map fst (Map_delete k es))"
  by (simp add: Map_delete_filter distinct_map_filter)

lemma length_Set_of: "length (Set_of xs) \<le> length xs"
proof (induction xs rule: Set_of.induct)
  case 1
  then show ?case by simp
next
  case (2 x xs)
  have "length (filter (\<lambda>y. y \<noteq> x) xs) \<le> length xs" by simp
  with 2 show ?case by (simp add: le_SucI order_trans)
qed

lemma Set_of_distinct: "distinct xs \<Longrightarrow> Set_of xs = xs"
proof (induction xs)
  case Nil
  then show ?case by simp
next
  case (Cons x xs)
  then have "filter (\<lambda>y. y \<noteq> x) xs = xs" by (auto intro: filter_True)
  with Cons show ?case by simp
qed

lemma length_rememberMessageId:
  "length seen \<le> 200 \<Longrightarrow> length (rememberMessageId seen i) \<le> 200"
proof -
  assume a: "length seen \<le> 200"
  have "length (Set_of (slice_last 100 (Set_add seen i))) \<le> 100"
    using length_Set_of [of "slice_last 100 (Set_add seen i)"]
    by (simp add: slice_last_def)
  then show ?thesis using a by (simp add: rememberMessageId_def Let_def)
qed

lemma handle_seen: "seenMessageIds (fst (handleIncomingMessage now m msg)) = seenMessageIds m"
  by (simp add: handleIncomingMessage_def handleJoinOrHeartbeat_def Let_def
      split: MultiplayerMessage.splits option.splits)

section \<open>Deduplication\<close>

lemma set_Set_of: "set (Set_of xs) = set xs"
proof (induction xs rule: Set_of.induct)
  case 1
  then show ?case by simp
next
  case (2 x xs)
  then show ?case by auto
qed

lemma remember_member: "i \<notin> set seen \<Longrightarrow> i \<in> set (rememberMessageId seen i)"
  by (simp add: rememberMessageId_def Set_add_def slice_last_def set_Set_of Let_def)

lemma remember_trim:
  assumes "distinct seen" and "200 < length (Set_add seen i)"
  shows "rememberMessageId seen i = slice_last 100 (Set_add seen i)"
proof -
  have "distinct (Set_add seen i)" using assms(1) by (simp add: Set_add_def)
  then have "distinct (slice_last 100 (Set_add seen i))" by (simp add: slice_last_def)
  then show ?thesis using assms(2) by (simp add: rememberMessageId_def Set_of_distinct)
qed

lemma distinct_remember: "distinct seen \<Longrightarrow> distinct (rememberMessageId seen i)"
  by (simp add: rememberMessageId_def Set_add_def slice_last_def Set_of_distinct Let_def)

lemma deduplicate_cases:
  "deduplicate m msg =
     (if duplicate m msg then None
      else case msgId msg of
        None \<Rightarrow> Some m
      | Some i \<Rightarrow> if truthy i
                  then Some (m\<lparr>seenMessageIds := rememberMessageId (seenMessageIds m) i\<rparr>)
                  else Some m)"
  by (simp add: deduplicate_def duplicate_def split: option.splits)

lemma receive_inbound:
  "receive now m d =
     (case inbound m d of
        None \<Rightarrow> (m, [])
      | Some msg \<Rightarrow> (case deduplicate m msg of
                      None \<Rightarrow> (m, [])
                    | Some m1 \<Rightarrow> handleIncomingMessage now m1 msg))"
  by (cases d)
     (auto simp: bcChannel_onmessage_def storageHandler_onstorage_def
           split: option.splits storedText.splits)

lemma inbound_carried: "inbound m d = Some msg \<Longrightarrow> carried d = Some msg"
  by (cases d) (auto split: option.splits storedText.splits if_splits)

lemma receive_duplicate:
  assumes "carried d = Some msg" and "duplicate m msg"
  shows "receive now m d = (m, [])"
proof (cases "inbound m d")
  case None
  then show ?thesis by (simp add: receive_inbound)
next
  case (Some msg')
  then have "msg' = msg" using assms(1) inbound_carried by fastforce
  then show ?thesis using Some assms(2) by (simp add: receive_inbound deduplicate_cases)
qed

lemma receive_seen_cases:
  "seenMessageIds (fst (receive now m d)) = seenMessageIds m \<or>
   (\<exists>i. i \<notin> set (seenMessageIds m) \<and>
        seenMessageIds (fst (receive now m d)) = rememberMessageId (seenMessageIds m) i)"
  by (auto simp: receive_inbound deduplicate_def handle_seen Set_has_def
           split: option.splits)

lemma receive_seen_length:
  "length (seenMessageIds m) \<le> 200 \<Longrightarrow> length (seenMessageIds (fst (receive now m d))) \<le> 200"
  using receive_seen_cases [of now m d] length_rememberMessageId by auto

lemma receiveAll_seen_length:
  "length (seenMessageIds m) \<le> 200 \<Longrightarrow>
   length (seenMessageIds (fst (receiveAll m ds))) \<le> 200"
proof (induction ds arbitrary: m)
  case Nil
  then show ?case by simp
next
  case (Cons a ds)
  obtain now d where a: "a = (now, d)" by (cases a)
  obtain m1 effs1 where r: "receive now m d = (m1, effs1)" by (cases "receive now m d")
  have "length (seenMessageIds m1) \<le> 200"
    using receive_seen_length [OF Cons.prems, of now d] r by simp
  then have "length (seenMessageIds (fst (receiveAll m1 ds))) \<le> 200" by (rule Cons.IH)
  then show ?case using a r by (cases "receiveAll m1 ds") simp
qed

text \<open>
  Claim C6.  The set of seen message ids never holds more than 200 ids: a bound of 200
  survives every sequence of deliveries, so it holds after any sequence of deliveries
  to a new manager, whose set is empty.  When adding an id makes the set larger than
  200, the set becomes its last 100 ids in insertion order, the 100 most recently
  added; otherwise the id is just added.  This is what a delivery does to the set when
  it brings a message that bears an id not yet seen.
\<close>

theorem seen_ids_bounded:
  "(length (seenMessageIds m) \<le> 200 \<longrightarrow>
      length (seenMessageIds (fst (receiveAll m ds))) \<le> 200) \<and>
   length (seenMessageIds
      (fst (receiveAll (fst (newManager rnd t0 bc env room pname pcolor host)) ds))) \<le> 200 \<and>
   (distinct seen \<and> 200 < length (Set_add seen i) \<longrightarrow>
      rememberMessageId seen i = slice_last 100 (Set_add seen i) \<and>
      length (rememberMessageId seen i) = 100) \<and>
   (length (Set_add seen i) \<le> 200 \<longrightarrow> rememberMessageId seen i = Set_add seen i) \<and>
   (inbound m d = Some msg \<and> bearsId msg j \<and> \<not> Set_has (seenMessageIds m) j \<longrightarrow>
      seenMessageIds (fst (receive now m d)) = rememberMessageId (seenMessageIds m) j)"
proof -
  have "length (seenMessageIds (fst (newManager rnd t0 bc env room pname pcolor host))) \<le> 200"
    by (simp add: newManager_def Let_def)
  then have new: "length (seenMessageIds
      (fst (receiveAll (fst (newManager rnd t0 bc env room pname pcolor host)) ds))) \<le> 200"
    by (rule receiveAll_seen_length)
  have trim: "distinct seen \<and> 200 < length (Set_add seen i) \<longrightarrow>
      rememberMessageId seen i = slice_last 100 (Set_add seen i) \<and>
      length (rememberMessageId seen i) = 100"
  proof
    assume h: "distinct seen \<and> 200 < length (Set_add seen i)"
    then have e: "rememberMessageId seen i = slice_last 100 (Set_add seen i)"
      by (simp add: remember_trim)
    have "length (slice_last 100 (Set_add seen i)) = 100"
      using h by (simp add: slice_last_def)
    with e show "rememberMessageId seen i = slice_last 100 (Set_add seen i) \<and>
      length (rememberMessageId seen i) = 100" by simp
  qed
  have keep: "length (Set_add seen i) \<le> 200 \<longrightarrow> rememberMessageId seen i = Set_add seen i"
    by (simp add: rememberMessageId_def)
  have step: "inbound m d = Some msg \<and> bearsId msg j \<and> \<not> Set_has (seenMessageIds m) j \<longrightarrow>
      seenMessageIds (fst (receive now m d)) = rememberMessageId (seenMessageIds m) j"
    by (simp add: receive_inbound deduplicate_def bearsId_def handle_seen)
  show ?thesis using receiveAll_seen_length new trim keep step by blast
qed

lemma demoIds_facts:
  "distinct demoIds \<and> length demoIds = 200 \<and> ''p-dan-5000-zzzz'' \<notin> set demoIds"
  by (auto simp: demoIds_def distinct_map inj_on_def)

theorem seen_ids_bounded_witness:
  "length (seenMessageIds demoManager) \<le> 200 \<and>
   length (seenMessageIds (fst (receiveAll demoManager
      [(5000, ViaChannel demoHeartbeat), (5001, ViaStorage (demoStorageEvent demoHeartbeat))])))
     \<le> 200 \<and>
   length (seenMessageIds (fst (receiveAll
      (fst (newManager ''k3j9x2ab'' 1000 True demoEnv ''ABCDEF'' ''Ana'' ''red'' True))
      [(5000, ViaChannel demoHeartbeat), (5001, ViaStorage (demoStorageEvent demoHeartbeat))])))
     \<le> 200 \<and>
   distinct demoIds \<and> 200 < length (Set_add demoIds ''p-dan-5000-zzzz'') \<and>
   rememberMessageId demoIds ''p-dan-5000-zzzz'' =
     slice_last 100 (Set_add demoIds ''p-dan-5000-zzzz'') \<and>
   length (rememberMessageId demoIds ''p-dan-5000-zzzz'') = 100 \<and>
   length (Set_add [''a''] ''b'') \<le> 200 \<and>
   rememberMessageId [''a''] ''b'' = Set_add [''a''] ''b'' \<and>
   inbound (demoManager\<lparr>seenMessageIds := demoIds\<rparr>) (ViaChannel demoHeartbeat) =
     Some demoHeartbeat \<and>
   bearsId demoHeartbeat ''p-dan-5000-zzzz'' \<and>
   \<not> Set_has (seenMessageIds (demoManager\<lparr>seenMessageIds := demoIds\<rparr>)) ''p-dan-5000-zzzz'' \<and>
   seenMessageIds (fst (receive 5000 (demoManager\<lparr>seenMessageIds := demoIds\<rparr>)
                          (ViaChannel demoHeartbeat))) =
     rememberMessageId demoIds ''p-dan-5000-zzzz'' \<and>
   length (seenMessageIds (fst (receive 5000 (demoManager\<lparr>seenMessageIds := demoIds\<rparr>)
                                  (ViaChannel demoHeartbeat)))) = 100"
proof -
  let ?full = "demoManager\<lparr>seenMessageIds := demoIds\<rparr>"
  have a: "length (seenMessageIds demoManager) \<le> 200" by (simp add: demoManager_def)
  have b: "distinct demoIds \<and> 200 < length (Set_add demoIds ''p-dan-5000-zzzz'')"
    using demoIds_facts by (simp add: Set_add_def)
  have c: "length (Set_add [''a''] ''b'') \<le> 200" by (simp add: Set_add_def)
  have d: "inbound ?full (ViaChannel demoHeartbeat) = Some demoHeartbeat"
    by (simp add: demoManager_def)
  have e: "bearsId demoHeartbeat ''p-dan-5000-zzzz''"
    by (simp add: bearsId_def demoHeartbeat_def truthy_def)
  have f: "\<not> Set_has (seenMessageIds ?full) ''p-dan-5000-zzzz''"
    using demoIds_facts by (simp add: Set_has_def)
  have g: "seenMessageIds ?full = demoIds" by simp
  note t1 = seen_ids_bounded
      [where m = demoManager
         and ds = "[(5000, ViaChannel demoHeartbeat),
                    (5001, ViaStorage (demoStorageEvent demoHeartbeat))]"
         and rnd = "''k3j9x2ab''" and ?t0.0 = 1000 and bc = True and env = demoEnv
         and room = "''ABCDEF''" and pname = "''Ana''" and pcolor = "''red''" and host = True
         and seen = demoIds and i = "''p-dan-5000-zzzz''"]
  note t2 = seen_ids_bounded [where seen = "[''a'']" and i = "''b''"]
  note t3 = seen_ids_bounded
      [where m = ?full and d = "ViaChannel demoHeartbeat" and msg = demoHeartbeat
         and j = "''p-dan-5000-zzzz''" and now = 5000]
  have h: "seenMessageIds (fst (receive 5000 ?full (ViaChannel demoHeartbeat))) =
           rememberMessageId demoIds ''p-dan-5000-zzzz''"
    using t3 d e f g by metis
  have k: "length (rememberMessageId demoIds ''p-dan-5000-zzzz'') = 100" using t1 b by blast
  have l: "length (seenMessageIds (fst (receive 5000 ?full (ViaChannel demoHeartbeat)))) = 100"
    using h k by simp
  show ?thesis using a b c d e f h l t1 t2 by blast
qed

section \<open>The liveness scan\<close>

lemma cleanupScan_result:
  "cleanupScan now m rest changed =
     (m\<lparr>remotePlayers :=
          filter (\<lambda>e. fst e \<notin> set (map fst (filter (stale now) rest))) (remotePlayers m)\<rparr>,
      concat (map (evictionEffects m) (filter (stale now) rest)),
      changed \<or> filter (stale now) rest \<noteq> [])"
proof (induction rest arbitrary: m changed)
  case Nil
  then show ?case by simp
next
  case (Cons a rest)
  obtain pid player where a: "a = (pid, player)" by (cases a)
  show ?case
  proof (cases "now - lastSeen player > 3000")
    case True
    have f: "filter (\<lambda>e. fst e \<notin> set (map fst (filter (stale now) rest)))
               (Map_delete pid (remotePlayers m)) =
             filter (\<lambda>e. fst e \<noteq> pid \<and> fst e \<notin> set (map fst (filter (stale now) rest)))
               (remotePlayers m)"
      by (simp add: Map_delete_filter conj_commute)
    show ?thesis
      using True a f
      by (simp add: Cons.IH stale_def evictionEffects_def)
  next
    case False
    then show ?thesis using a by (simp add: Cons.IH stale_def)
  qed
qed

lemma distinct_keys_filter:
  assumes "distinct (map fst es)"
  shows "filter (\<lambda>e. fst e \<notin> set (map fst (filter P es))) es = filter (\<lambda>e. \<not> P e) es"
proof (rule filter_cong [OF refl])
  fix e
  assume e: "e \<in> set es"
  have inj: "inj_on fst (set es)" using assms by (simp add: distinct_map)
  show "(fst e \<notin> set (map fst (filter P es))) = (\<not> P e)"
  proof
    assume "fst e \<notin> set (map fst (filter P es))"
    then show "\<not> P e" using e by force
  next
    assume n: "\<not> P e"
    show "fst e \<notin> set (map fst (filter P es))"
    proof
      assume "fst e \<in> set (map fst (filter P es))"
      then obtain e' where e': "e' \<in> set es" "P e'" "fst e' = fst e" by auto
      then have "e' = e" using inj e by (auto dest: inj_onD)
      then show False using e' n by simp
    qed
  qed
qed

lemma cleanupTick_result:
  assumes "\<not> destroyed m"
  shows "cleanupTick now m =
     (m\<lparr>remotePlayers :=
          filter (\<lambda>e. fst e \<notin> set (map fst (filter (stale now) (remotePlayers m))))
            (remotePlayers m)\<rparr>,
      concat (map (evictionEffects m) (filter (stale now) (remotePlayers m))) @
      (if filter (stale now) (remotePlayers m) \<noteq> []
       then notifyConnectionChange
              (m\<lparr>remotePlayers :=
                   filter (\<lambda>e. fst e \<notin> set (map fst (filter (stale now) (remotePlayers m))))
                     (remotePlayers m)\<rparr>)
       else []))"
  using assms by (simp add: cleanupTick_def cleanupScan_result)

lemma cleanupTick_registry:
  assumes "\<not> destroyed m" and "wellFormed m"
  shows "remotePlayers (fst (cleanupTick now m)) =
         filter (\<lambda>e. \<not> stale now e) (remotePlayers m)"
proof -
  have "remotePlayers (fst (cleanupTick now m)) =
        filter (\<lambda>e. fst e \<notin> set (map fst (filter (stale now) (remotePlayers m))))
          (remotePlayers m)"
    using assms(1) by (simp add: cleanupTick_result)
  also have "\<dots> = filter (\<lambda>e. \<not> stale now e) (remotePlayers m)"
    using assms(2) unfolding wellFormed_def by (rule distinct_keys_filter)
  finally show ?thesis .
qed

lemma filter_status_evictions:
  "filter isStatus (concat (map (evictionEffects m) es)) =
   concat (map (\<lambda>e. call (onStatusChange m)
                      (StatusChange (Disconnected (info_name (snd e))))) es)"
  by (induction es) (simp_all add: evictionEffects_def call_def)

lemma filter_membership_evictions:
  "filter isMembership (concat (map (evictionEffects m) es)) = []"
  by (induction es) (simp_all add: evictionEffects_def call_def)

lemma filter_status_notify: "filter isStatus (notifyConnectionChange m) = []"
  by (simp add: notifyConnectionChange_def call_def)

lemma filter_membership_notify:
  "filter isMembership (notifyConnectionChange m) = notifyConnectionChange m"
  by (simp add: notifyConnectionChange_def call_def)

lemma notify_installed:
  "onConnectionChange m \<Longrightarrow> onPlayerListChange m \<Longrightarrow>
   notifyConnectionChange m =
     [ConnectionChange (getConnectedCount m), PlayerListChange (getPlayerList m)]"
  by (simp add: notifyConnectionChange_def call_def getConnectedCount_def getPlayerList_def)

text \<open>
  Claim C4.  One pass of the liveness driver over a live manager removes from the
  registry exactly the peers whose \<open>lastSeen\<close> is more than 3000 ms old, calls the
  departure notification (the status handler, as also the message handler) once per
  evicted peer in the order of the registry, and notifies the membership handlers once,
  after the scan and with the registry as the scan left it, if and only if a peer was
  evicted.
\<close>

theorem cleanup_pass:
  assumes "\<not> destroyed m" and "wellFormed m"
  shows "remotePlayers (fst (cleanupTick now m)) =
           filter (\<lambda>e. \<not> stale now e) (remotePlayers m) \<and>
         filter isStatus (snd (cleanupTick now m)) =
           concat (map (\<lambda>e. call (onStatusChange m)
                              (StatusChange (Disconnected (info_name (snd e)))))
                       (filter (stale now) (remotePlayers m))) \<and>
         snd (cleanupTick now m) =
           concat (map (evictionEffects m) (filter (stale now) (remotePlayers m))) @
           (if filter (stale now) (remotePlayers m) \<noteq> []
            then notifyConnectionChange (fst (cleanupTick now m)) else []) \<and>
         filter isMembership (snd (cleanupTick now m)) =
           (if filter (stale now) (remotePlayers m) \<noteq> []
            then notifyConnectionChange (fst (cleanupTick now m)) else []) \<and>
         (onStatusChange m \<longrightarrow>
            length (filter isStatus (snd (cleanupTick now m))) =
            length (filter (stale now) (remotePlayers m))) \<and>
         (onConnectionChange m \<and> onPlayerListChange m \<longrightarrow>
            filter isMembership (snd (cleanupTick now m)) =
              (if filter (stale now) (remotePlayers m) \<noteq> []
               then [ConnectionChange (getConnectedCount (fst (cleanupTick now m))),
                     PlayerListChange (getPlayerList (fst (cleanupTick now m)))]
               else []))"
proof -
  let ?r = "cleanupTick now m"
  let ?gone = "filter (stale now) (remotePlayers m)"
  have reg: "remotePlayers (fst ?r) = filter (\<lambda>e. \<not> stale now e) (remotePlayers m)"
    using assms by (rule cleanupTick_registry)
  have effs: "snd ?r = concat (map (evictionEffects m) ?gone) @
           (if ?gone \<noteq> [] then notifyConnectionChange (fst ?r) else [])"
    using assms(1) by (simp add: cleanupTick_result)
  have st: "filter isStatus (snd ?r) =
           concat (map (\<lambda>e. call (onStatusChange m)
                              (StatusChange (Disconnected (info_name (snd e))))) ?gone)"
    by (simp add: effs filter_status_evictions filter_status_notify)
  have mem: "filter isMembership (snd ?r) =
           (if ?gone \<noteq> [] then notifyConnectionChange (fst ?r) else [])"
    by (simp add: effs filter_membership_evictions filter_membership_notify)
  have cnt: "length (filter isStatus (snd ?r)) = length ?gone" if "onStatusChange m"
  proof -
    have "length (concat (map (\<lambda>e. [StatusChange (Disconnected (info_name (snd e)))]) es))
          = length es" for es :: "(string \<times> RemotePlayerInfo) list"
      by (induction es) simp_all
    then show ?thesis using that by (simp add: st call_def)
  qed
  have flags: "onConnectionChange (fst ?r) = onConnectionChange m"
              "onPlayerListChange (fst ?r) = onPlayerListChange m"
    using assms(1) by (simp_all add: cleanupTick_result)
  have inst: "filter isMembership (snd ?r) =
              (if ?gone \<noteq> []
               then [ConnectionChange (getConnectedCount (fst ?r)),
                     PlayerListChange (getPlayerList (fst ?r))]
               else [])" if "onConnectionChange m \<and> onPlayerListChange m"
    using that flags by (simp add: mem notify_installed)
  show ?thesis using reg effs st mem cnt inst by blast
qed

lemma Map_get_filter:
  "distinct (map fst es) \<Longrightarrow>
   (Map_get (filter P es) k = Some v) = (Map_get es k = Some v \<and> P (k, v))"
proof (induction es)
  case Nil
  then show ?case by simp
next
  case (Cons a es)
  obtain k' v' where a: "a = (k', v')" by (cases a)
  have d: "distinct (map fst es)" and n: "k' \<notin> set (map fst es)" using Cons.prems a by auto
  have none: "Map_get es k' = None" using n by (simp add: Map_get_None)
  have nonef: "Map_get (filter P es) k' = None" using n by (auto simp: Map_get_None)
  show ?case
  proof (cases "k' = k")
    case True
    then show ?thesis using a none nonef by auto
  next
    case False
    then show ?thesis using a Cons.IH [OF d] by simp
  qed
qed

text \<open>
  Claim C8, as amended.  Right after a pass of the liveness driver at time \<open>now\<close>, the
  registry of a live manager holds a peer if and only if it held the peer before the pass
  and the peer's \<open>lastSeen\<close> is at most 3000 ms old; every entry is then within the
  liveness window.
\<close>

theorem registry_after_cleanup_pass:
  assumes "\<not> destroyed m" and "wellFormed m"
  shows "allFresh now (fst (cleanupTick now m)) \<and>
         (Map_get (remotePlayers (fst (cleanupTick now m))) p = Some info) =
           (Map_get (remotePlayers m) p = Some info \<and> now - lastSeen info \<le> 3000)"
proof -
  have reg: "remotePlayers (fst (cleanupTick now m)) =
             filter (\<lambda>e. \<not> stale now e) (remotePlayers m)"
    using assms by (rule cleanupTick_registry)
  have "allFresh now (fst (cleanupTick now m))"
    by (simp add: allFresh_def reg list_all_iff)
  moreover have "(Map_get (remotePlayers (fst (cleanupTick now m))) p = Some info) =
           (Map_get (remotePlayers m) p = Some info \<and> now - lastSeen info \<le> 3000)"
    using assms(2) by (auto simp: reg Map_get_filter wellFormed_def stale_def)
  ultimately show ?thesis by simp
qed

lemmas container_defs =
  Map_has_def Map_size_def Map_values_def Set_has_def Set_add_def slice_last_def truthy_def

lemmas handler_defs =
  call_def notifyConnectionChange_def handleJoinOrHeartbeat_def handleIncomingMessage_def
  rememberMessageId_def deduplicate_def bcChannel_onmessage_def roomKeyPrefix_def
  storageHandler_onstorage_def cleanupTick_def getConnectedCount_def getPlayerList_def

lemmas demo_defs =
  demoManager_def bobEntry_def cyEntry_def demoHeartbeat_def demoStorageEvent_def demoEnv_def

lemma demoManager_live: "\<not> destroyed demoManager \<and> wellFormed demoManager"
  by (simp add: demo_defs wellFormed_def)

theorem cleanup_pass_witness:
  "\<not> destroyed demoManager \<and> wellFormed demoManager \<and>
   onStatusChange demoManager \<and> onConnectionChange demoManager \<and>
   onPlayerListChange demoManager \<and>
   filter (stale 6000) (remotePlayers demoManager) = [bobEntry] \<and>
   remotePlayers (fst (cleanupTick 6000 demoManager)) = [cyEntry] \<and>
   filter isStatus (snd (cleanupTick 6000 demoManager)) = [StatusChange (Disconnected ''Bob'')] \<and>
   filter isMembership (snd (cleanupTick 6000 demoManager)) =
     [ConnectionChange 1, PlayerListChange [snd cyEntry]] \<and>
   filter (stale 3000) (remotePlayers demoManager) = [] \<and>
   remotePlayers (fst (cleanupTick 3000 demoManager)) = [bobEntry, cyEntry] \<and>
   snd (cleanupTick 3000 demoManager) = []"
proof -
  have live: "\<not> destroyed demoManager" and wf: "wellFormed demoManager"
    using demoManager_live by simp_all
  have h: "onStatusChange demoManager \<and> onConnectionChange demoManager \<and>
           onPlayerListChange demoManager"
    by (simp add: demoManager_def)
  have g6: "filter (stale 6000) (remotePlayers demoManager) = [bobEntry]"
    by (simp add: demo_defs stale_def)
  have k6: "filter (\<lambda>e. \<not> stale 6000 e) (remotePlayers demoManager) = [cyEntry]"
    by (simp add: demo_defs stale_def)
  have g3: "filter (stale 3000) (remotePlayers demoManager) = []"
    by (simp add: demo_defs stale_def)
  have k3: "filter (\<lambda>e. \<not> stale 3000 e) (remotePlayers demoManager) = [bobEntry, cyEntry]"
    by (simp add: demo_defs stale_def)
  note t6 = cleanup_pass [OF live wf, of 6000]
  note t3 = cleanup_pass [OF live wf, of 3000]
  note reg6 = t6 [THEN conjunct1]
  note st6 = t6 [THEN conjunct2, THEN conjunct1]
  note mem6 = t6 [THEN conjunct2, THEN conjunct2, THEN conjunct2, THEN conjunct2, THEN conjunct2]
  note reg3 = t3 [THEN conjunct1]
  note all3 = t3 [THEN conjunct2, THEN conjunct2, THEN conjunct1]
  have r6: "remotePlayers (fst (cleanupTick 6000 demoManager)) = [cyEntry]"
    using reg6 k6 by simp
  have s6: "filter isStatus (snd (cleanupTick 6000 demoManager)) =
            [StatusChange (Disconnected ''Bob'')]"
    using st6 g6 h by (simp add: call_def bobEntry_def)
  have m6: "filter isMembership (snd (cleanupTick 6000 demoManager)) =
            [ConnectionChange 1, PlayerListChange [snd cyEntry]]"
    using mem6 g6 h r6 by (simp add: getConnectedCount_def getPlayerList_def container_defs)
  have r3: "remotePlayers (fst (cleanupTick 3000 demoManager)) = [bobEntry, cyEntry]"
    using reg3 k3 by simp
  have e3: "snd (cleanupTick 3000 demoManager) = []"
    using all3 g3 by simp
  show ?thesis using live wf h g6 r6 s6 m6 g3 r3 e3 by simp
qed

theorem registry_after_cleanup_pass_witness:
  "\<not> destroyed demoManager \<and> wellFormed demoManager \<and>
   allFresh 6000 (fst (cleanupTick 6000 demoManager)) \<and>
   Map_get (remotePlayers demoManager) ''p-cy'' = Some (snd cyEntry) \<and>
   6000 - lastSeen (snd cyEntry) \<le> 3000 \<and>
   Map_get (remotePlayers (fst (cleanupTick 6000 demoManager))) ''p-cy'' = Some (snd cyEntry) \<and>
   Map_get (remotePlayers demoManager) ''p-bob'' = Some (snd bobEntry) \<and>
   \<not> 6000 - lastSeen (snd bobEntry) \<le> 3000 \<and>
   Map_get (remotePlayers (fst (cleanupTick 6000 demoManager))) ''p-bob'' \<noteq> Some (snd bobEntry)"
proof -
  have live: "\<not> destroyed demoManager" and wf: "wellFormed demoManager"
    using demoManager_live by simp_all
  have c: "Map_get (remotePlayers demoManager) ''p-cy'' = Some (snd cyEntry) \<and>
           6000 - lastSeen (snd cyEntry) \<le> 3000"
    by (simp add: demo_defs)
  have b: "Map_get (remotePlayers demoManager) ''p-bob'' = Some (snd bobEntry) \<and>
           \<not> 6000 - lastSeen (snd bobEntry) \<le> 3000"
    by (simp add: demo_defs)
  note tc = registry_after_cleanup_pass [OF live wf, of 6000 "''p-cy''" "snd cyEntry"]
  note tb = registry_after_cleanup_pass [OF live wf, of 6000 "''p-bob''" "snd bobEntry"]
  show ?thesis using live wf c b tc tb by blast
qed

text \<open>
  Claim C8 as stated fails.  In the timeline, Bob's only message was accepted at time 1000.
  The pass at time 4000 keeps his entry (its age is 3000, not more), and the next pass
  is due at 6000: at time 5000 the registry holds an entry whose last accepted message
  is 4000 ms old.
\<close>

theorem registry_holds_stale_entry_between_passes:
  "Map_get (remotePlayers staleTimeline) ''p-bob'' =
     Some \<lparr>info_id = ''p-bob'', info_name = ''Bob'', info_color = ''blue'', lastSeen = 1000\<rparr> \<and>
   \<not> allFresh 5000 staleTimeline"
  by (simp add: staleTimeline_def newManager_def announceJoin_def broadcast_def bobHeartbeat_def
      handler_defs container_defs demo_defs allFresh_def stale_def Let_def)

section \<open>Accepted messages\<close>

lemma receive_accepted:
  assumes "accepted m d msg"
  shows "\<exists>s. receive now m d = handleIncomingMessage now (m\<lparr>seenMessageIds := s\<rparr>) msg"
proof -
  have i: "inbound m d = Some msg" and n: "\<not> duplicate m msg"
    using assms by (simp_all add: accepted_def)
  show ?thesis
  proof (cases "msgId msg")
    case None
    then have "receive now m d = handleIncomingMessage now (m\<lparr>seenMessageIds := seenMessageIds m\<rparr>) msg"
      using i n by (simp add: receive_inbound deduplicate_cases)
    then show ?thesis by blast
  next
    case (Some j)
    show ?thesis
    proof (cases "truthy j")
      case True
      then have "receive now m d =
        handleIncomingMessage now
          (m\<lparr>seenMessageIds := rememberMessageId (seenMessageIds m) j\<rparr>) msg"
        using i n Some by (simp add: receive_inbound deduplicate_cases)
      then show ?thesis by blast
    next
      case False
      then have "receive now m d =
        handleIncomingMessage now (m\<lparr>seenMessageIds := seenMessageIds m\<rparr>) msg"
        using i n Some by (simp add: receive_inbound deduplicate_cases)
      then show ?thesis by blast
    qed
  qed
qed

lemma deduplicate_Some:
  "deduplicate m msg = Some m1 \<Longrightarrow> m1 = m\<lparr>seenMessageIds := seenMessageIds m1\<rparr>"
  by (auto simp: deduplicate_def split: option.splits if_splits)

lemma handle_own:
  "peerIdOf (body msg) = peerId m \<Longrightarrow> handleIncomingMessage now m msg = (m, [])"
  by (simp add: handleIncomingMessage_def)

text \<open>
  Claim C7.  A delivery that carries a message whose sender id is the manager's own
  fires nothing and leaves the registry, and every other field but the set of seen ids,
  as it was, on either transport; and a storage record whose wrapper names the manager
  itself as sender is dropped whatever its payload is, with the whole state unchanged.
\<close>

theorem own_messages_ignored:
  "(carried d = Some msg \<and> peerIdOf (body msg) = peerId m \<longrightarrow>
      snd (receive now m d) = [] \<and>
      remotePlayers (fst (receive now m d)) = remotePlayers m \<and>
      fst (receive now m d) = m\<lparr>seenMessageIds := seenMessageIds (fst (receive now m d))\<rparr>) \<and>
   (e_newValue e = Some (WrapperText (peerId m) payload) \<longrightarrow>
      storageHandler_onstorage now m e = (m, []))"
proof -
  have own: "snd (receive now m d) = [] \<and>
      remotePlayers (fst (receive now m d)) = remotePlayers m \<and>
      fst (receive now m d) = m\<lparr>seenMessageIds := seenMessageIds (fst (receive now m d))\<rparr>"
    if c: "carried d = Some msg" and p: "peerIdOf (body msg) = peerId m"
  proof (cases "inbound m d")
    case None
    then show ?thesis by (simp add: receive_inbound)
  next
    case (Some msg')
    then have e: "msg' = msg" using c inbound_carried by fastforce
    show ?thesis
    proof (cases "deduplicate m msg")
      case None
      then show ?thesis using Some e by (simp add: receive_inbound)
    next
      case (Some m1)
      have m1: "m1 = m\<lparr>seenMessageIds := seenMessageIds m1\<rparr>"
        using Some by (rule deduplicate_Some)
      have "peerId m1 = peerId m" using arg_cong [OF m1, of peerId] by simp
      then have "peerIdOf (body msg) = peerId m1" using p by simp
      then have h: "handleIncomingMessage now m1 msg = (m1, [])" by (rule handle_own)
      have r: "receive now m d = (m1, [])"
        using \<open>inbound m d = Some msg'\<close> e Some h by (simp add: receive_inbound)
      have "remotePlayers m1 = remotePlayers m"
        using arg_cong [OF m1, of remotePlayers] by simp
      then show ?thesis using r m1 by simp
    qed
  qed
  have wrapper: "storageHandler_onstorage now m e = (m, [])"
    if "e_newValue e = Some (WrapperText (peerId m) payload)"
    using that by (simp add: storageHandler_onstorage_def split: option.splits)
  show ?thesis using own wrapper by blast
qed

text \<open>
  Claim C9.  An accepted \<open>playerLeft\<close> of peer \<open>p\<close> deletes \<open>p\<close> from the registry,
  whatever the entry's \<open>lastSeen\<close> is; the status handler is called with the departure
  text carrying the name of the deleted entry when there was one, and not at all when
  there was none; and in both cases the membership handlers are notified once, with the
  registry after the deletion.
\<close>

theorem player_left_removes_and_notifies:
  assumes "accepted m d msg" and "body msg = PlayerLeft p"
  shows "remotePlayers (fst (receive now m d)) = Map_delete p (remotePlayers m) \<and>
         Map_get (remotePlayers (fst (receive now m d))) p = None \<and>
         filter isStatus (snd (receive now m d)) =
           (case Map_get (remotePlayers m) p of
              Some leaving \<Rightarrow> call (onStatusChange m) (StatusChange (Quit (info_name leaving)))
            | None \<Rightarrow> []) \<and>
         filter isMembership (snd (receive now m d)) =
           notifyConnectionChange (fst (receive now m d)) \<and>
         (onConnectionChange m \<and> onPlayerListChange m \<longrightarrow>
            filter isMembership (snd (receive now m d)) =
              [ConnectionChange (getConnectedCount (fst (receive now m d))),
               PlayerListChange (getPlayerList (fst (receive now m d)))])"
proof -
  obtain s where r: "receive now m d = handleIncomingMessage now (m\<lparr>seenMessageIds := s\<rparr>) msg"
    using receive_accepted [OF assms(1)] by blast
  have other: "p \<noteq> peerId m" using assms by (auto simp: accepted_def)
  let ?m' = "m\<lparr>seenMessageIds := s, remotePlayers := Map_delete p (remotePlayers m)\<rparr>"
  have h: "handleIncomingMessage now (m\<lparr>seenMessageIds := s\<rparr>) msg =
           (?m', (case Map_get (remotePlayers m) p of
                    Some leaving \<Rightarrow>
                      call (onStatusChange m) (StatusChange (Quit (info_name leaving)))
                  | None \<Rightarrow> []) @
                 notifyConnectionChange ?m' @ call (onMessage m) (Message msg))"
    using assms(2) other by (simp add: handleIncomingMessage_def Let_def split: option.splits)
  have reg: "remotePlayers (fst (receive now m d)) = Map_delete p (remotePlayers m)"
    by (simp add: r h)
  have gone: "Map_get (remotePlayers (fst (receive now m d))) p = None"
    by (simp add: reg Map_get_delete)
  have st: "filter isStatus (snd (receive now m d)) =
           (case Map_get (remotePlayers m) p of
              Some leaving \<Rightarrow> call (onStatusChange m) (StatusChange (Quit (info_name leaving)))
            | None \<Rightarrow> [])"
    by (simp add: r h filter_status_notify call_def split: option.splits)
  have mem: "filter isMembership (snd (receive now m d)) =
           notifyConnectionChange (fst (receive now m d))"
    by (simp add: r h filter_membership_notify call_def split: option.splits)
  have inst: "filter isMembership (snd (receive now m d)) =
              [ConnectionChange (getConnectedCount (fst (receive now m d))),
               PlayerListChange (getPlayerList (fst (receive now m d)))]"
    if "onConnectionChange m \<and> onPlayerListChange m"
  proof -
    have "onConnectionChange (fst (receive now m d))" "onPlayerListChange (fst (receive now m d))"
      using that by (simp_all add: r h)
    then show ?thesis by (simp add: mem notify_installed)
  qed
  show ?thesis using reg gone st mem inst by blast
qed

theorem own_messages_ignored_witness:
  "carried (ViaChannel ownEcho) = Some ownEcho \<and>
   carried (ViaStorage \<lparr>e_key = Some ''cr-ABCDEF-5000-kkkk'',
                         e_newValue = Some (WrapperText ''p-bob'' ownEcho)\<rparr>) = Some ownEcho \<and>
   peerIdOf (body ownEcho) = peerId demoManager \<and>
   snd (receive 5000 demoManager (ViaChannel ownEcho)) = [] \<and>
   remotePlayers (fst (receive 5000 demoManager (ViaChannel ownEcho))) =
     remotePlayers demoManager \<and>
   snd (receive 5000 demoManager
          (ViaStorage \<lparr>e_key = Some ''cr-ABCDEF-5000-kkkk'',
                        e_newValue = Some (WrapperText ''p-bob'' ownEcho)\<rparr>)) = [] \<and>
   remotePlayers (fst (receive 5000 demoManager
          (ViaStorage \<lparr>e_key = Some ''cr-ABCDEF-5000-kkkk'',
                        e_newValue = Some (WrapperText ''p-bob'' ownEcho)\<rparr>))) =
     remotePlayers demoManager \<and>
   e_newValue (demoStorageEvent danUpdate\<lparr>e_newValue := Some (WrapperText ''p-me'' danUpdate)\<rparr>) =
     Some (WrapperText (peerId demoManager) danUpdate) \<and>
   storageHandler_onstorage 5000 demoManager
     (demoStorageEvent danUpdate\<lparr>e_newValue := Some (WrapperText ''p-me'' danUpdate)\<rparr>) =
     (demoManager, [])"
proof -
  let ?d = "ViaStorage \<lparr>e_key = Some ''cr-ABCDEF-5000-kkkk'',
                          e_newValue = Some (WrapperText ''p-bob'' ownEcho)\<rparr>"
  let ?e = "demoStorageEvent danUpdate\<lparr>e_newValue := Some (WrapperText ''p-me'' danUpdate)\<rparr>"
  have a: "carried (ViaChannel ownEcho) = Some ownEcho" by simp
  have b: "carried ?d = Some ownEcho" by simp
  have c: "peerIdOf (body ownEcho) = peerId demoManager"
    by (simp add: ownEcho_def demoManager_def)
  have e: "e_newValue ?e = Some (WrapperText (peerId demoManager) danUpdate)"
    by (simp add: demoManager_def)
  note t1 = own_messages_ignored
      [where d = "ViaChannel ownEcho" and msg = ownEcho and m = demoManager and now = 5000
         and e = ?e and payload = danUpdate]
  note t2 = own_messages_ignored
      [where d = ?d and msg = ownEcho and m = demoManager and now = 5000
         and e = ?e and payload = danUpdate]
  show ?thesis using a b c e t1 t2 by blast
qed

theorem player_left_removes_and_notifies_witness:
  "accepted demoManager (ViaChannel bobLeft) bobLeft \<and>
   body bobLeft = PlayerLeft ''p-bob'' \<and>
   onStatusChange demoManager \<and> onConnectionChange demoManager \<and>
   onPlayerListChange demoManager \<and>
   remotePlayers (fst (receive 5000 demoManager (ViaChannel bobLeft))) = [cyEntry] \<and>
   filter isStatus (snd (receive 5000 demoManager (ViaChannel bobLeft))) =
     [StatusChange (Quit ''Bob'')] \<and>
   filter isMembership (snd (receive 5000 demoManager (ViaChannel bobLeft))) =
     [ConnectionChange 1, PlayerListChange [snd cyEntry]] \<and>
   accepted demoManager (ViaStorage (demoStorageEvent danLeft)) danLeft \<and>
   body danLeft = PlayerLeft ''p-dan'' \<and>
   remotePlayers (fst (receive 5000 demoManager (ViaStorage (demoStorageEvent danLeft)))) =
     [bobEntry, cyEntry] \<and>
   filter isStatus (snd (receive 5000 demoManager (ViaStorage (demoStorageEvent danLeft)))) = [] \<and>
   filter isMembership (snd (receive 5000 demoManager (ViaStorage (demoStorageEvent danLeft)))) =
     [ConnectionChange 2, PlayerListChange [snd bobEntry, snd cyEntry]]"
proof -
  let ?b = "ViaChannel bobLeft"
  let ?d = "ViaStorage (demoStorageEvent danLeft)"
  have ab: "accepted demoManager ?b bobLeft" and bb: "body bobLeft = PlayerLeft ''p-bob''"
    by (simp_all add: accepted_def duplicate_def bobLeft_def demoManager_def container_defs)
  have ad: "accepted demoManager ?d danLeft" and bd: "body danLeft = PlayerLeft ''p-dan''"
    by (simp_all add: accepted_def duplicate_def danLeft_def demoManager_def
        demoStorageEvent_def roomKeyPrefix_def container_defs)
  have h: "onStatusChange demoManager \<and> onConnectionChange demoManager \<and>
           onPlayerListChange demoManager"
    by (simp add: demoManager_def)
  have gb: "Map_get (remotePlayers demoManager) ''p-bob'' = Some (snd bobEntry)"
    and db: "Map_delete ''p-bob'' (remotePlayers demoManager) = [cyEntry]"
    and gd: "Map_get (remotePlayers demoManager) ''p-dan'' = None"
    and dd: "Map_delete ''p-dan'' (remotePlayers demoManager) = [bobEntry, cyEntry]"
    by (simp_all add: demoManager_def bobEntry_def cyEntry_def)
  note tb = player_left_removes_and_notifies [OF ab bb, of 5000]
  note td = player_left_removes_and_notifies [OF ad bd, of 5000]
  have rb: "remotePlayers (fst (receive 5000 demoManager ?b)) = [cyEntry]"
    using tb [THEN conjunct1] db by simp
  have sb: "filter isStatus (snd (receive 5000 demoManager ?b)) = [StatusChange (Quit ''Bob'')]"
    using tb [THEN conjunct2, THEN conjunct2, THEN conjunct1] gb h
    by (simp add: call_def bobEntry_def)
  have mb: "filter isMembership (snd (receive 5000 demoManager ?b)) =
            [ConnectionChange 1, PlayerListChange [snd cyEntry]]"
    using tb [THEN conjunct2, THEN conjunct2, THEN conjunct2, THEN conjunct2] h rb
    by (simp add: getConnectedCount_def getPlayerList_def container_defs)
  have rd: "remotePlayers (fst (receive 5000 demoManager ?d)) = [bobEntry, cyEntry]"
    using td [THEN conjunct1] dd by simp
  have sd: "filter isStatus (snd (receive 5000 demoManager ?d)) = []"
    using td [THEN conjunct2, THEN conjunct2, THEN conjunct1] gd by simp
  have md: "filter isMembership (snd (receive 5000 demoManager ?d)) =
            [ConnectionChange 2, PlayerListChange [snd bobEntry, snd cyEntry]]"
    using td [THEN conjunct2, THEN conjunct2, THEN conjunct2, THEN conjunct2] h rd
    by (simp add: getConnectedCount_def getPlayerList_def container_defs)
  show ?thesis using ab bb h rb sb mb ad bd rd sd md by simp
qed

section \<open>Registration and refresh\<close>

lemma accepted_other: "accepted m d msg \<Longrightarrow> peerIdOf (body msg) \<noteq> peerId m"
  by (simp add: accepted_def)

lemma handle_join_or_heartbeat:
  assumes "p \<noteq> peerId m" and "body msg = PlayerJoin p n c \<or> body msg = Heartbeat p n c"
  shows "handleIncomingMessage now m msg =
         handleJoinOrHeartbeat now m p n c (body msg = PlayerJoin p n c)"
  using assms by (auto simp: handleIncomingMessage_def)

lemma handle_update_known:
  assumes "p \<noteq> peerId m" and "body msg = PlayerUpdate player p"
    and "Map_get (remotePlayers m) p = Some existing"
  shows "handleIncomingMessage now m msg =
         (m\<lparr>remotePlayers := Map_set p (existing\<lparr>lastSeen := now\<rparr>) (remotePlayers m)\<rparr>,
          call (onMessage m) (Message msg))"
  using assms by (simp add: handleIncomingMessage_def)

lemma handle_update_unknown:
  assumes "p \<noteq> peerId m" and "body msg = PlayerUpdate player p"
    and "Map_get (remotePlayers m) p = None"
  shows "handleIncomingMessage now m msg =
         (m\<lparr>remotePlayers :=
              Map_set p \<lparr>info_id = p, info_name = p_name player,
                         info_color = p_color player, lastSeen = now\<rparr> (remotePlayers m)\<rparr>,
          notifyConnectionChange
            (m\<lparr>remotePlayers :=
                 Map_set p \<lparr>info_id = p, info_name = p_name player,
                            info_color = p_color player, lastSeen = now\<rparr> (remotePlayers m)\<rparr>) @
          call (onMessage m) (Message msg))"
  using assms by (simp add: handleIncomingMessage_def Let_def)

lemma handle_control:
  assumes "p \<noteq> peerId m" and "body msg = LevelChange level p \<or> body msg = StartGame level p"
  shows "fst (handleIncomingMessage now m msg) = m"
  using assms by (auto simp: handleIncomingMessage_def)

text \<open>
  Claim C2, as amended.  An accepted \<open>playerJoin\<close> or \<open>heartbeat\<close> of peer \<open>p\<close> leaves
  in the registry the entry of \<open>p\<close> with the name and colour of the message and
  \<open>lastSeen\<close> the current time.  An accepted \<open>playerUpdate\<close> sets \<open>lastSeen\<close> of the
  entry of \<open>p\<close> to the current time, keeping the name and colour of an entry that
  exists and taking those of the player state otherwise.  An accepted \<open>levelChange\<close> or
  \<open>startGame\<close> leaves the registry as it was.
\<close>

theorem accepted_message_refreshes_entry:
  assumes "accepted m d msg"
  shows "(body msg = PlayerJoin p n c \<or> body msg = Heartbeat p n c \<longrightarrow>
            Map_get (remotePlayers (fst (receive now m d))) p =
              Some \<lparr>info_id = p, info_name = n, info_color = c, lastSeen = now\<rparr>) \<and>
         (body msg = PlayerUpdate player p \<longrightarrow>
            Map_get (remotePlayers (fst (receive now m d))) p =
              Some (case Map_get (remotePlayers m) p of
                      Some existing \<Rightarrow> existing\<lparr>lastSeen := now\<rparr>
                    | None \<Rightarrow> \<lparr>info_id = p, info_name = p_name player,
                                info_color = p_color player, lastSeen = now\<rparr>)) \<and>
         (body msg = LevelChange level p \<or> body msg = StartGame level p \<longrightarrow>
            remotePlayers (fst (receive now m d)) = remotePlayers m)"
proof -
  obtain s where r: "receive now m d = handleIncomingMessage now (m\<lparr>seenMessageIds := s\<rparr>) msg"
    using receive_accepted [OF assms] by blast
  let ?m = "m\<lparr>seenMessageIds := s\<rparr>"
  have other: "peerIdOf (body msg) \<noteq> peerId ?m" using accepted_other [OF assms] by simp
  have join: "Map_get (remotePlayers (fst (receive now m d))) p =
              Some \<lparr>info_id = p, info_name = n, info_color = c, lastSeen = now\<rparr>"
    if b: "body msg = PlayerJoin p n c \<or> body msg = Heartbeat p n c"
  proof -
    have "p \<noteq> peerId ?m" using other b by auto
    then have "handleIncomingMessage now ?m msg =
               handleJoinOrHeartbeat now ?m p n c (body msg = PlayerJoin p n c)"
      using b by (rule handle_join_or_heartbeat)
    then show ?thesis by (simp add: r handleJoinOrHeartbeat_def Let_def Map_get_set)
  qed
  have update: "Map_get (remotePlayers (fst (receive now m d))) p =
              Some (case Map_get (remotePlayers m) p of
                      Some existing \<Rightarrow> existing\<lparr>lastSeen := now\<rparr>
                    | None \<Rightarrow> \<lparr>info_id = p, info_name = p_name player,
                                info_color = p_color player, lastSeen = now\<rparr>)"
    if b: "body msg = PlayerUpdate player p"
  proof (cases "Map_get (remotePlayers m) p")
    case None
    have "p \<noteq> peerId ?m" using other b by auto
    then show ?thesis
      using handle_update_unknown [of p ?m msg player now] b None
      by (simp add: r Map_get_set)
  next
    case (Some existing)
    have "p \<noteq> peerId ?m" using other b by auto
    then show ?thesis
      using handle_update_known [of p ?m msg player existing now] b Some
      by (simp add: r Map_get_set)
  qed
  have control: "remotePlayers (fst (receive now m d)) = remotePlayers m"
    if b: "body msg = LevelChange level p \<or> body msg = StartGame level p"
  proof -
    have "p \<noteq> peerId ?m" using other b by auto
    then have "fst (handleIncomingMessage now ?m msg) = ?m" using b by (rule handle_control)
    then show ?thesis by (simp add: r)
  qed
  show ?thesis using join update control by blast
qed

text \<open>
  Claim C2 as stated fails for \<open>levelChange\<close>.  Bob is registered with \<open>lastSeen\<close>
  1000; his \<open>levelChange\<close> is accepted at time 5000 and handed to the message handler,
  and his entry still says 1000.
\<close>

theorem level_change_does_not_refresh:
  "accepted demoManager (ViaChannel bobLevelChange) bobLevelChange \<and>
   snd (receive 5000 demoManager (ViaChannel bobLevelChange)) = [Message bobLevelChange] \<and>
   map_option lastSeen
     (Map_get (remotePlayers (fst (receive 5000 demoManager (ViaChannel bobLevelChange))))
        ''p-bob'') = Some 1000 \<and>
   map_option lastSeen
     (Map_get (remotePlayers (fst (receive 5000 demoManager (ViaChannel bobLevelChange))))
        ''p-bob'') \<noteq> Some 5000"
  by (simp add: accepted_def duplicate_def bobLevelChange_def demo_defs handler_defs
      container_defs)

theorem accepted_message_refreshes_entry_witness:
  "accepted demoManager (ViaChannel bobJoin) bobJoin \<and>
   body bobJoin = PlayerJoin ''p-bob'' ''Bobby'' ''navy'' \<and>
   Map_get (remotePlayers (fst (receive 5000 demoManager (ViaChannel bobJoin)))) ''p-bob'' =
     Some \<lparr>info_id = ''p-bob'', info_name = ''Bobby'', info_color = ''navy'', lastSeen = 5000\<rparr> \<and>
   accepted demoManager (ViaChannel demoHeartbeat) demoHeartbeat \<and>
   body demoHeartbeat = Heartbeat ''p-dan'' ''Dan'' ''pink'' \<and>
   Map_get (remotePlayers (fst (receive 5000 demoManager (ViaChannel demoHeartbeat)))) ''p-dan'' =
     Some \<lparr>info_id = ''p-dan'', info_name = ''Dan'', info_color = ''pink'', lastSeen = 5000\<rparr> \<and>
   accepted demoManager (ViaStorage (demoStorageEvent danUpdate)) danUpdate \<and>
   body danUpdate = PlayerUpdate danState ''p-dan'' \<and>
   Map_get (remotePlayers (fst (receive 5000 demoManager (ViaStorage (demoStorageEvent danUpdate)))))
     ''p-dan'' =
     Some \<lparr>info_id = ''p-dan'', info_name = ''Dan'', info_color = ''pink'', lastSeen = 5000\<rparr> \<and>
   accepted demoManager (ViaChannel bobLevelChange) bobLevelChange \<and>
   body bobLevelChange = LevelChange 2 ''p-bob'' \<and>
   remotePlayers (fst (receive 5000 demoManager (ViaChannel bobLevelChange))) =
     remotePlayers demoManager"
proof -
  have a1: "accepted demoManager (ViaChannel bobJoin) bobJoin"
    and b1: "body bobJoin = PlayerJoin ''p-bob'' ''Bobby'' ''navy''"
    by (simp_all add: accepted_def duplicate_def bobJoin_def demoManager_def container_defs)
  have a2: "accepted demoManager (ViaChannel demoHeartbeat) demoHeartbeat"
    and b2: "body demoHeartbeat = Heartbeat ''p-dan'' ''Dan'' ''pink''"
    by (simp_all add: accepted_def duplicate_def demoHeartbeat_def demoManager_def container_defs)
  have a3: "accepted demoManager (ViaStorage (demoStorageEvent danUpdate)) danUpdate"
    and b3: "body danUpdate = PlayerUpdate danState ''p-dan''"
    by (simp_all add: accepted_def duplicate_def danUpdate_def demoManager_def
        demoStorageEvent_def roomKeyPrefix_def container_defs)
  have a4: "accepted demoManager (ViaChannel bobLevelChange) bobLevelChange"
    and b4: "body bobLevelChange = LevelChange 2 ''p-bob''"
    by (simp_all add: accepted_def duplicate_def bobLevelChange_def demoManager_def
        container_defs)
  have g: "Map_get (remotePlayers demoManager) ''p-dan'' = None"
    by (simp add: demo_defs)
  have n: "p_name danState = ''Dan'' \<and> p_color danState = ''pink''"
    by (simp add: danState_def)
  note t1 = accepted_message_refreshes_entry
      [OF a1, where p = "''p-bob''" and n = "''Bobby''" and c = "''navy''" and now = 5000]
  note t2 = accepted_message_refreshes_entry
      [OF a2, where p = "''p-dan''" and n = "''Dan''" and c = "''pink''" and now = 5000]
  note t3 = accepted_message_refreshes_entry
      [OF a3, where p = "''p-dan''" and player = danState and now = 5000]
  note t4 = accepted_message_refreshes_entry
      [OF a4, where p = "''p-bob''" and level = 2 and now = 5000]
  have c1: "Map_get (remotePlayers (fst (receive 5000 demoManager (ViaChannel bobJoin)))) ''p-bob'' =
     Some \<lparr>info_id = ''p-bob'', info_name = ''Bobby'', info_color = ''navy'', lastSeen = 5000\<rparr>"
    using t1 [THEN conjunct1] b1 by simp
  have c2: "Map_get (remotePlayers (fst (receive 5000 demoManager (ViaChannel demoHeartbeat)))) ''p-dan'' =
     Some \<lparr>info_id = ''p-dan'', info_name = ''Dan'', info_color = ''pink'', lastSeen = 5000\<rparr>"
    using t2 [THEN conjunct1] b2 by simp
  have c3: "Map_get (remotePlayers (fst (receive 5000 demoManager
                (ViaStorage (demoStorageEvent danUpdate))))) ''p-dan'' =
     Some \<lparr>info_id = ''p-dan'', info_name = ''Dan'', info_color = ''pink'', lastSeen = 5000\<rparr>"
    using t3 [THEN conjunct2, THEN conjunct1] b3 g n by simp
  have c4: "remotePlayers (fst (receive 5000 demoManager (ViaChannel bobLevelChange))) =
     remotePlayers demoManager"
    using t4 [THEN conjunct2, THEN conjunct2] b4 by simp
  show ?thesis using a1 b1 c1 a2 b2 c2 a3 b3 c3 a4 b4 c4 by simp
qed

section \<open>Join notifications\<close>

lemma Map_has_set: "Map_has (Map_set k v es) k"
  by (simp add: Map_has_def Map_get_set)

lemma filter_status_call_message: "filter isStatus (call b (Message w)) = []"
  by (simp add: call_def)

lemma filter_membership_call_message: "filter isMembership (call b (Message w)) = []"
  by (simp add: call_def)

text \<open>
  Claim C3, as amended.  Take an accepted message of peer \<open>p\<close>.  When \<open>p\<close> is not in
  the registry, a \<open>playerJoin\<close> or \<open>heartbeat\<close> registers it, calls the status handler
  once with the "joined" text and notifies the membership handlers once; a
  \<open>playerUpdate\<close> registers it and notifies the membership handlers once, with no status
  call.  When \<open>p\<close> is in the registry, a \<open>playerJoin\<close>, \<open>heartbeat\<close> or \<open>playerUpdate\<close>
  keeps it there and calls neither the status handler nor the membership handlers.
\<close>

theorem join_notifications_once_per_transition:
  assumes "accepted m d msg"
  shows "((body msg = PlayerJoin p n c \<or> body msg = Heartbeat p n c) \<and>
          \<not> Map_has (remotePlayers m) p \<longrightarrow>
            Map_has (remotePlayers (fst (receive now m d))) p \<and>
            filter isStatus (snd (receive now m d)) =
              call (onStatusChange m) (StatusChange (Joined n)) \<and>
            filter isMembership (snd (receive now m d)) =
              notifyConnectionChange (fst (receive now m d))) \<and>
         (body msg = PlayerUpdate player p \<and> \<not> Map_has (remotePlayers m) p \<longrightarrow>
            Map_has (remotePlayers (fst (receive now m d))) p \<and>
            filter isStatus (snd (receive now m d)) = [] \<and>
            filter isMembership (snd (receive now m d)) =
              notifyConnectionChange (fst (receive now m d))) \<and>
         ((body msg = PlayerJoin p n c \<or> body msg = Heartbeat p n c \<or>
           body msg = PlayerUpdate player p) \<and> Map_has (remotePlayers m) p \<longrightarrow>
            Map_has (remotePlayers (fst (receive now m d))) p \<and>
            filter isStatus (snd (receive now m d)) = [] \<and>
            filter isMembership (snd (receive now m d)) = []) \<and>
         (onConnectionChange m \<and> onPlayerListChange m \<longrightarrow>
            notifyConnectionChange (fst (receive now m d)) =
              [ConnectionChange (getConnectedCount (fst (receive now m d))),
               PlayerListChange (getPlayerList (fst (receive now m d)))])"
proof -
  obtain s where r: "receive now m d = handleIncomingMessage now (m\<lparr>seenMessageIds := s\<rparr>) msg"
    using receive_accepted [OF assms] by blast
  let ?m = "m\<lparr>seenMessageIds := s\<rparr>"
  have other: "peerIdOf (body msg) \<noteq> peerId ?m" using accepted_other [OF assms] by simp
  have jh: "handleIncomingMessage now ?m msg =
            handleJoinOrHeartbeat now ?m p n c (body msg = PlayerJoin p n c)"
    if b: "body msg = PlayerJoin p n c \<or> body msg = Heartbeat p n c"
  proof -
    have "p \<noteq> peerId ?m" using other b by auto
    then show ?thesis using b by (rule handle_join_or_heartbeat)
  qed
  have new_join: "Map_has (remotePlayers (fst (receive now m d))) p \<and>
            filter isStatus (snd (receive now m d)) =
              call (onStatusChange m) (StatusChange (Joined n)) \<and>
            filter isMembership (snd (receive now m d)) =
              notifyConnectionChange (fst (receive now m d))"
    if b: "body msg = PlayerJoin p n c \<or> body msg = Heartbeat p n c"
      and u: "\<not> Map_has (remotePlayers m) p"
    using u
    by (simp add: r jh [OF b] handleJoinOrHeartbeat_def Let_def Map_has_set
        filter_status_notify filter_membership_notify call_def)
  have new_update: "Map_has (remotePlayers (fst (receive now m d))) p \<and>
            filter isStatus (snd (receive now m d)) = [] \<and>
            filter isMembership (snd (receive now m d)) =
              notifyConnectionChange (fst (receive now m d))"
    if b: "body msg = PlayerUpdate player p" and u: "\<not> Map_has (remotePlayers m) p"
  proof -
    have "p \<noteq> peerId ?m" using other b by auto
    moreover have "Map_get (remotePlayers ?m) p = None" using u by (simp add: Map_has_def)
    ultimately show ?thesis
      using handle_update_unknown [of p ?m msg player now] b
      by (simp add: r Map_has_set filter_status_notify filter_membership_notify
          filter_status_call_message filter_membership_call_message)
  qed
  have known: "Map_has (remotePlayers (fst (receive now m d))) p \<and>
            filter isStatus (snd (receive now m d)) = [] \<and>
            filter isMembership (snd (receive now m d)) = []"
    if b: "body msg = PlayerJoin p n c \<or> body msg = Heartbeat p n c \<or>
           body msg = PlayerUpdate player p" and k: "Map_has (remotePlayers m) p"
  proof (cases "body msg = PlayerUpdate player p")
    case True
    obtain existing where e: "Map_get (remotePlayers ?m) p = Some existing"
      using k by (auto simp: Map_has_def)
    have "p \<noteq> peerId ?m" using other True by auto
    then show ?thesis
      using handle_update_known [of p ?m msg player existing now] True e
      by (simp add: r Map_has_set filter_status_call_message filter_membership_call_message)
  next
    case False
    then have b': "body msg = PlayerJoin p n c \<or> body msg = Heartbeat p n c" using b by blast
    show ?thesis
      using k by (simp add: r jh [OF b'] handleJoinOrHeartbeat_def Let_def Map_has_set)
  qed
  have flags: "onConnectionChange (fst (receive now m d)) = onConnectionChange m \<and>
               onPlayerListChange (fst (receive now m d)) = onPlayerListChange m"
    by (simp add: r handleIncomingMessage_def handleJoinOrHeartbeat_def Let_def
        split: MultiplayerMessage.splits option.splits)
  have inst: "notifyConnectionChange (fst (receive now m d)) =
              [ConnectionChange (getConnectedCount (fst (receive now m d))),
               PlayerListChange (getPlayerList (fst (receive now m d)))]"
    if "onConnectionChange m \<and> onPlayerListChange m"
    using that flags by (simp add: notify_installed)
  show ?thesis using new_join new_update known inst by blast
qed

text \<open>
  Claim C3 as stated fails for \<open>playerUpdate\<close>.  Dan is unknown; his \<open>playerUpdate\<close>
  is accepted and registers him, with the status handler installed, and the effects are
  the two membership calls and the message call: no "joined" status call.
\<close>

theorem update_registers_without_join_status:
  "accepted demoManager (ViaChannel danUpdate) danUpdate \<and>
   onStatusChange demoManager \<and>
   \<not> Map_has (remotePlayers demoManager) ''p-dan'' \<and>
   Map_has (remotePlayers (fst (receive 5000 demoManager (ViaChannel danUpdate)))) ''p-dan'' \<and>
   snd (receive 5000 demoManager (ViaChannel danUpdate)) =
     [ConnectionChange 3,
      PlayerListChange
        [snd bobEntry, snd cyEntry,
         \<lparr>info_id = ''p-dan'', info_name = ''Dan'', info_color = ''pink'', lastSeen = 5000\<rparr>],
      Message danUpdate] \<and>
   filter isStatus (snd (receive 5000 demoManager (ViaChannel danUpdate))) = []"
  by (simp add: accepted_def duplicate_def danUpdate_def danState_def demo_defs handler_defs
      container_defs)

theorem join_notifications_once_per_transition_witness:
  "accepted demoManager (ViaChannel demoHeartbeat) demoHeartbeat \<and>
   body demoHeartbeat = Heartbeat ''p-dan'' ''Dan'' ''pink'' \<and>
   \<not> Map_has (remotePlayers demoManager) ''p-dan'' \<and>
   onStatusChange demoManager \<and> onConnectionChange demoManager \<and>
   onPlayerListChange demoManager \<and>
   Map_has (remotePlayers (fst (receive 5000 demoManager (ViaChannel demoHeartbeat)))) ''p-dan'' \<and>
   filter isStatus (snd (receive 5000 demoManager (ViaChannel demoHeartbeat))) =
     [StatusChange (Joined ''Dan'')] \<and>
   filter isMembership (snd (receive 5000 demoManager (ViaChannel demoHeartbeat))) =
     [ConnectionChange (getConnectedCount (fst (receive 5000 demoManager (ViaChannel demoHeartbeat)))),
      PlayerListChange (getPlayerList (fst (receive 5000 demoManager (ViaChannel demoHeartbeat))))] \<and>
   accepted demoManager (ViaChannel danUpdate) danUpdate \<and>
   body danUpdate = PlayerUpdate danState ''p-dan'' \<and>
   Map_has (remotePlayers (fst (receive 5000 demoManager (ViaChannel danUpdate)))) ''p-dan'' \<and>
   filter isStatus (snd (receive 5000 demoManager (ViaChannel danUpdate))) = [] \<and>
   filter isMembership (snd (receive 5000 demoManager (ViaChannel danUpdate))) =
     [ConnectionChange (getConnectedCount (fst (receive 5000 demoManager (ViaChannel danUpdate)))),
      PlayerListChange (getPlayerList (fst (receive 5000 demoManager (ViaChannel danUpdate))))] \<and>
   accepted demoManager (ViaChannel bobJoin) bobJoin \<and>
   body bobJoin = PlayerJoin ''p-bob'' ''Bobby'' ''navy'' \<and>
   Map_has (remotePlayers demoManager) ''p-bob'' \<and>
   Map_has (remotePlayers (fst (receive 5000 demoManager (ViaChannel bobJoin)))) ''p-bob'' \<and>
   filter isStatus (snd (receive 5000 demoManager (ViaChannel bobJoin))) = [] \<and>
   filter isMembership (snd (receive 5000 demoManager (ViaChannel bobJoin))) = []"
proof -
  have a1: "accepted demoManager (ViaChannel demoHeartbeat) demoHeartbeat"
    and b1: "body demoHeartbeat = Heartbeat ''p-dan'' ''Dan'' ''pink''"
    by (simp_all add: accepted_def duplicate_def demoHeartbeat_def demoManager_def container_defs)
  have a2: "accepted demoManager (ViaChannel danUpdate) danUpdate"
    and b2: "body danUpdate = PlayerUpdate danState ''p-dan''"
    by (simp_all add: accepted_def duplicate_def danUpdate_def demoManager_def container_defs)
  have a3: "accepted demoManager (ViaChannel bobJoin) bobJoin"
    and b3: "body bobJoin = PlayerJoin ''p-bob'' ''Bobby'' ''navy''"
    by (simp_all add: accepted_def duplicate_def bobJoin_def demoManager_def container_defs)
  have u: "\<not> Map_has (remotePlayers demoManager) ''p-dan''"
    and k: "Map_has (remotePlayers demoManager) ''p-bob''"
    by (simp_all add: demo_defs Map_has_def)
  have h: "onStatusChange demoManager \<and> onConnectionChange demoManager \<and>
           onPlayerListChange demoManager"
    by (simp add: demoManager_def)
  note t1 = join_notifications_once_per_transition
      [OF a1, where p = "''p-dan''" and n = "''Dan''" and c = "''pink''" and now = 5000]
  note t2 = join_notifications_once_per_transition
      [OF a2, where p = "''p-dan''" and player = danState and now = 5000]
  note t3 = join_notifications_once_per_transition
      [OF a3, where p = "''p-bob''" and n = "''Bobby''" and c = "''navy''" and now = 5000]
  have c1: "Map_has (remotePlayers (fst (receive 5000 demoManager (ViaChannel demoHeartbeat)))) ''p-dan'' \<and>
   filter isStatus (snd (receive 5000 demoManager (ViaChannel demoHeartbeat))) =
     [StatusChange (Joined ''Dan'')] \<and>
   filter isMembership (snd (receive 5000 demoManager (ViaChannel demoHeartbeat))) =
     [ConnectionChange (getConnectedCount (fst (receive 5000 demoManager (ViaChannel demoHeartbeat)))),
      PlayerListChange (getPlayerList (fst (receive 5000 demoManager (ViaChannel demoHeartbeat))))]"
    using t1 [THEN conjunct1] t1 [THEN conjunct2, THEN conjunct2, THEN conjunct2] b1 u h
    by (simp add: call_def)
  have c2: "Map_has (remotePlayers (fst (receive 5000 demoManager (ViaChannel danUpdate)))) ''p-dan'' \<and>
   filter isStatus (snd (receive 5000 demoManager (ViaChannel danUpdate))) = [] \<and>
   filter isMembership (snd (receive 5000 demoManager (ViaChannel danUpdate))) =
     [ConnectionChange (getConnectedCount (fst (receive 5000 demoManager (ViaChannel danUpdate)))),
      PlayerListChange (getPlayerList (fst (receive 5000 demoManager (ViaChannel danUpdate))))]"
    using t2 [THEN conjunct2, THEN conjunct1]
      t2 [THEN conjunct2, THEN conjunct2, THEN conjunct2] b2 u h
    by simp
  have c3: "Map_has (remotePlayers (fst (receive 5000 demoManager (ViaChannel bobJoin)))) ''p-bob'' \<and>
   filter isStatus (snd (receive 5000 demoManager (ViaChannel bobJoin))) = [] \<and>
   filter isMembership (snd (receive 5000 demoManager (ViaChannel bobJoin))) = []"
    using t3 [THEN conjunct2, THEN conjunct2, THEN conjunct1] b3 k by simp
  show ?thesis using a1 b1 u h c1 a2 b2 c2 a3 b3 k c3 by simp
qed

section \<open>Membership notifications\<close>

lemma paired_skip:
  "\<not> isMembership e \<Longrightarrow> membershipPaired m (e # effs) = membershipPaired m effs"
  by (cases e) simp_all

lemma paired_append:
  "filter isMembership xs = [] \<Longrightarrow> membershipPaired m (xs @ ys) = membershipPaired m ys"
proof (induction xs)
  case Nil
  then show ?case by simp
next
  case (Cons a xs)
  have a: "\<not> isMembership a" and xs: "filter isMembership xs = []"
    using Cons.prems by (simp_all split: if_splits)
  have "membershipPaired m ((a # xs) @ ys) = membershipPaired m (xs @ ys)"
    using paired_skip [OF a] by simp
  then show ?case using Cons.IH [OF xs] by simp
qed

lemma paired_notify:
  assumes "onConnectionChange m" and "onPlayerListChange m"
  shows "membershipPaired m (notifyConnectionChange m @ ys) = membershipPaired m ys"
  using assms
  by (simp add: notify_installed getConnectedCount_def getPlayerList_def
      Map_size_def Map_values_def)

lemma paired_around:
  assumes "onConnectionChange m" and "onPlayerListChange m"
    and "filter isMembership pre = []" and "filter isMembership post = []"
  shows "membershipPaired m (pre @ notifyConnectionChange m @ post)"
proof -
  have "membershipPaired m (post @ []) = membershipPaired m []"
    using assms(4) by (rule paired_append)
  then have "membershipPaired m post" by simp
  then have "membershipPaired m (notifyConnectionChange m @ post)"
    using paired_notify [OF assms(1,2)] by simp
  then show ?thesis using paired_append [OF assms(3)] by simp
qed

lemma paired_none: "filter isMembership xs = [] \<Longrightarrow> membershipPaired m xs"
  using paired_append [of xs m "[]"] by simp

lemma handle_paired:
  assumes "onConnectionChange m" and "onPlayerListChange m"
  shows "membershipPaired (fst (handleIncomingMessage now m msg))
                          (snd (handleIncomingMessage now m msg))"
proof (cases "peerIdOf (body msg) = peerId m")
  case True
  then show ?thesis by (simp add: handle_own)
next
  case False
  show ?thesis
  proof (cases "body msg")
    case (PlayerUpdate player p)
    have o: "p \<noteq> peerId m" using False PlayerUpdate by simp
    show ?thesis
    proof (cases "Map_get (remotePlayers m) p")
      case None
      let ?m' = "m\<lparr>remotePlayers :=
              Map_set p \<lparr>info_id = p, info_name = p_name player,
                         info_color = p_color player, lastSeen = now\<rparr> (remotePlayers m)\<rparr>"
      have "membershipPaired ?m' ([] @ notifyConnectionChange ?m' @ call (onMessage m) (Message msg))"
        using assms by (intro paired_around) (simp_all add: call_def)
      then show ?thesis using handle_update_unknown [OF o PlayerUpdate None, of now] by simp
    next
      case (Some existing)
      show ?thesis
        using handle_update_known [OF o PlayerUpdate Some, of now]
        by (simp add: paired_none call_def)
    qed
  next
    case (LevelChange level p)
    then show ?thesis using False
      by (simp add: handleIncomingMessage_def paired_none call_def)
  next
    case (PlayerJoin p n c)
    let ?m' = "m\<lparr>remotePlayers :=
                 Map_set p \<lparr>info_id = p, info_name = n, info_color = c, lastSeen = now\<rparr>
                   (remotePlayers m)\<rparr>"
    have "membershipPaired ?m'
            (call (onStatusChange m) (StatusChange (Joined n)) @ notifyConnectionChange ?m' @
             [SetTimeout AnnounceTimer 50])"
      using assms by (intro paired_around) (simp_all add: call_def)
    then show ?thesis using False PlayerJoin
      by (simp add: handleIncomingMessage_def handleJoinOrHeartbeat_def Let_def)
  next
    case (PlayerLeft p)
    let ?m' = "m\<lparr>remotePlayers := Map_delete p (remotePlayers m)\<rparr>"
    have "membershipPaired ?m'
            (pre @ notifyConnectionChange ?m' @ call (onMessage m) (Message msg))"
      if "filter isMembership pre = []" for pre
      using assms that by (intro paired_around) (simp_all add: call_def)
    then show ?thesis using False PlayerLeft
      by (simp add: handleIncomingMessage_def Let_def call_def split: option.splits)
  next
    case (StartGame level p)
    then show ?thesis using False
      by (simp add: handleIncomingMessage_def paired_none call_def)
  next
    case (Heartbeat p n c)
    let ?m' = "m\<lparr>remotePlayers :=
                 Map_set p \<lparr>info_id = p, info_name = n, info_color = c, lastSeen = now\<rparr>
                   (remotePlayers m)\<rparr>"
    have "membershipPaired ?m'
            (call (onStatusChange m) (StatusChange (Joined n)) @ notifyConnectionChange ?m' @ [])"
      using assms by (intro paired_around) (simp_all add: call_def)
    then show ?thesis using False Heartbeat
      by (simp add: handleIncomingMessage_def handleJoinOrHeartbeat_def Let_def)
  qed
qed

lemma receive_paired:
  assumes "onConnectionChange m" and "onPlayerListChange m"
  shows "membershipPaired (fst (receive now m d)) (snd (receive now m d))"
proof (cases "inbound m d")
  case None
  then show ?thesis by (simp add: receive_inbound)
next
  case (Some msg)
  note inb = Some
  show ?thesis
  proof (cases "deduplicate m msg")
    case None
    then show ?thesis using inb by (simp add: receive_inbound)
  next
    case (Some m1)
    have m1: "m1 = m\<lparr>seenMessageIds := seenMessageIds m1\<rparr>" using Some by (rule deduplicate_Some)
    have "onConnectionChange m1" "onPlayerListChange m1"
      using assms arg_cong [OF m1, of onConnectionChange] arg_cong [OF m1, of onPlayerListChange]
      by simp_all
    then have "membershipPaired (fst (handleIncomingMessage now m1 msg))
                                (snd (handleIncomingMessage now m1 msg))"
      by (rule handle_paired)
    then show ?thesis using inb Some by (simp add: receive_inbound)
  qed
qed

lemma cleanup_paired:
  assumes "onConnectionChange m" and "onPlayerListChange m"
  shows "membershipPaired (fst (cleanupTick now m)) (snd (cleanupTick now m))"
proof (cases "destroyed m")
  case True
  then show ?thesis by (simp add: cleanupTick_def)
next
  case False
  let ?m' = "fst (cleanupTick now m)"
  let ?gone = "filter (stale now) (remotePlayers m)"
  have flags: "onConnectionChange ?m'" "onPlayerListChange ?m'"
    using assms False by (simp_all add: cleanupTick_result)
  have effs: "snd (cleanupTick now m) =
        concat (map (evictionEffects m) ?gone) @
        (if ?gone \<noteq> [] then notifyConnectionChange ?m' else [])"
    using False by (simp add: cleanupTick_result)
  show ?thesis
  proof (cases "?gone = []")
    case True
    then show ?thesis by (simp add: effs)
  next
    case nonempty: False
    have "membershipPaired ?m'
            (concat (map (evictionEffects m) ?gone) @ notifyConnectionChange ?m' @ [])"
      using flags by (intro paired_around) (simp_all add: filter_membership_evictions)
    then show ?thesis using nonempty by (simp add: effs)
  qed
qed

text \<open>
  Claim C10.  \<open>getConnectedCount\<close> is the length of \<open>getPlayerList\<close>.  With both
  membership handlers installed, \<open>notifyConnectionChange\<close> calls \<open>onConnectionChange\<close> and
  then \<open>onPlayerListChange\<close> with the size and the values of the same registry; and in
  the effects of every delivery and of every pass of the liveness driver, each call of
  \<open>onConnectionChange\<close> is followed at once by a call of \<open>onPlayerListChange\<close>, the count
  is the length of the list, and both are read from the registry the operation leaves.
\<close>

theorem membership_notifications_agree:
  "getConnectedCount m = length (getPlayerList m) \<and>
   (onConnectionChange m \<and> onPlayerListChange m \<longrightarrow>
      notifyConnectionChange m =
        [ConnectionChange (getConnectedCount m), PlayerListChange (getPlayerList m)] \<and>
      membershipPaired (fst (receive now m d)) (snd (receive now m d)) \<and>
      membershipPaired (fst (cleanupTick now m)) (snd (cleanupTick now m)))"
  using notify_installed [of m] receive_paired [of m now d] cleanup_paired [of m now]
  by (simp add: getConnectedCount_def getPlayerList_def Map_size_def Map_values_def)

theorem membership_notifications_agree_witness:
  "onConnectionChange demoManager \<and> onPlayerListChange demoManager \<and>
   getConnectedCount demoManager = length (getPlayerList demoManager) \<and>
   notifyConnectionChange demoManager =
     [ConnectionChange (getConnectedCount demoManager),
      PlayerListChange (getPlayerList demoManager)] \<and>
   snd (receive 5000 demoManager (ViaChannel bobLeft)) =
     [StatusChange (Quit ''Bob''), ConnectionChange 1, PlayerListChange [snd cyEntry],
      Message bobLeft] \<and>
   membershipPaired (fst (receive 5000 demoManager (ViaChannel bobLeft)))
     (snd (receive 5000 demoManager (ViaChannel bobLeft))) \<and>
   snd (cleanupTick 6000 demoManager) =
     [StatusChange (Disconnected ''Bob''),
      Message \<lparr>body = PlayerLeft ''p-bob'', msgId = None\<rparr>,
      ConnectionChange 1, PlayerListChange [snd cyEntry]] \<and>
   membershipPaired (fst (cleanupTick 6000 demoManager)) (snd (cleanupTick 6000 demoManager))"
proof -
  have h: "onConnectionChange demoManager \<and> onPlayerListChange demoManager"
    by (simp add: demoManager_def)
  have e1: "snd (receive 5000 demoManager (ViaChannel bobLeft)) =
     [StatusChange (Quit ''Bob''), ConnectionChange 1, PlayerListChange [snd cyEntry],
      Message bobLeft]"
    by (simp add: bobLeft_def demo_defs handler_defs container_defs)
  have e2: "snd (cleanupTick 6000 demoManager) =
     [StatusChange (Disconnected ''Bob''),
      Message \<lparr>body = PlayerLeft ''p-bob'', msgId = None\<rparr>,
      ConnectionChange 1, PlayerListChange [snd cyEntry]]"
    by (simp add: demo_defs handler_defs container_defs)
  note t1 = membership_notifications_agree
      [where m = demoManager and now = 5000 and d = "ViaChannel bobLeft"]
  note t2 = membership_notifications_agree
      [where m = demoManager and now = 6000 and d = "ViaChannel bobLeft"]
  show ?thesis using h e1 e2 t1 t2 by blast
qed

section \<open>Destruction\<close>

lemma filter_send_removals: "filter isSend (map RemoveItem ks) = []"
  by (induction ks) simp_all

text \<open>
  Claim C1.  \<open>destroy\<close> sets the flag \<open>destroyed\<close> before it calls \<open>broadcast\<close>, and
  \<open>broadcast\<close> returns at once when the flag is set: the call meant to announce the
  departure posts nothing on the channel and writes nothing to the store.  The effects of
  \<open>destroy\<close> hold no send at all, for every manager and every state of the platform.
\<close>

theorem destroy_sends_no_player_left:
  "broadcast env (m\<lparr>destroyed := True\<rparr>) (PlayerLeft (peerId m)) = [] \<and>
   filter isSend (snd (destroy env storageKeys m)) = [] \<and>
   destroyed (fst (destroy env storageKeys m)) \<and>
   remotePlayers (fst (destroy env storageKeys m)) = []"
  by (simp add: destroy_def broadcast_def Let_def filter_send_removals)

text \<open>
  On the example manager: the effects of \<open>destroy\<close> are the teardown alone, while the
  same \<open>broadcast\<close> on the manager before the flag is set posts the \<open>playerLeft\<close> on the
  channel and writes it to the store.
\<close>

lemma number_text_examples: "number_text 5000 = ''5000'' \<and> number_text 5001 = ''5001''"
  by (simp add: number_text_def toString_int_def toString_radix.simps digit_char_def)

lemma destroy_example:
  "snd (destroy demoEnv [''cr-ABCDEF-4000-aaaa'', ''theme''] demoManager) =
     [ClearInterval HeartbeatInterval, ClearInterval CleanupInterval, CloseChannel,
      RemoveStorageListener, RemoveItem ''cr-ABCDEF-4000-aaaa''] \<and>
   filter isSend (broadcast demoEnv demoManager (PlayerLeft (peerId demoManager))) =
     [PostMessage \<lparr>body = PlayerLeft ''p-me'',
                    msgId = Some ''p-me-5000-ab12''\<rparr>,
      SetItem ''cr-ABCDEF-5001-cd34''
        (WrapperText ''p-me'' \<lparr>body = PlayerLeft ''p-me'', msgId = Some ''p-me-5000-ab12''\<rparr>)]"
  by (simp add: destroy_def broadcast_def Let_def demo_defs roomKeyPrefix_def truthy_def
      number_text_examples)

text \<open>Every message that \<open>broadcast\<close> sends bears an id, which is not empty.\<close>

lemma broadcast_bears_id:
  "PostMessage w \<in> set (broadcast env m msg) \<or>
   SetItem k (WrapperText from w) \<in> set (broadcast env m msg) \<Longrightarrow>
   \<exists>i. bearsId w i"
  by (auto simp: broadcast_def Let_def bearsId_def truthy_def split: if_splits)

section \<open>One effect per message id\<close>

lemma receive_first:
  assumes "inbound m d = Some msg" and "bearsId msg i" and "\<not> Set_has (seenMessageIds m) i"
  shows "receive now m d =
         handleIncomingMessage now
           (m\<lparr>seenMessageIds := rememberMessageId (seenMessageIds m) i\<rparr>) msg"
  using assms by (simp add: receive_inbound deduplicate_def bearsId_def)

text \<open>
  Claim C5.  Let a message bear the id \<open>i\<close>.  Its first delivery past the guards of a
  transport, with \<open>i\<close> not yet seen, is handled and leaves \<open>i\<close> in the set of seen
  ids.  When the message is of another peer, the handling has the effect of its kind: a
  \<open>playerJoin\<close> or \<open>heartbeat\<close> stores the sender's entry and, for a new peer, fires
  the joined status, the membership notifications and (for a join) the timer of the reply;
  a \<open>playerUpdate\<close> stores or refreshes the entry, notifies the membership handlers of a
  new peer and hands the message to \<open>onMessage\<close>; a \<open>levelChange\<close> is handed to
  \<open>onMessage\<close> and a \<open>startGame\<close> fires \<open>onGameStart\<close> with the level; a
  \<open>playerLeft\<close> deletes the entry, fires the departure status of a known peer, the
  membership notifications, and is handed to \<open>onMessage\<close>.  Any delivery of a message
  bearing \<open>i\<close>, through either transport, to a manager that has \<open>i\<close> in the set changes
  nothing and fires nothing; in particular a second delivery right after the first does.
\<close>

theorem first_delivery_processed_later_dropped:
  assumes "bearsId msg i"
  shows "(inbound m d = Some msg \<and> \<not> Set_has (seenMessageIds m) i \<longrightarrow>
            receive now m d =
              handleIncomingMessage now
                (m\<lparr>seenMessageIds := rememberMessageId (seenMessageIds m) i\<rparr>) msg \<and>
            Set_has (seenMessageIds (fst (receive now m d))) i) \<and>
         (inbound m d = Some msg \<and> \<not> Set_has (seenMessageIds m) i \<and>
          peerIdOf (body msg) \<noteq> peerId m \<longrightarrow>
            (body msg = PlayerJoin p n c \<or> body msg = Heartbeat p n c \<longrightarrow>
               remotePlayers (fst (receive now m d)) =
                 Map_set p \<lparr>info_id = p, info_name = n, info_color = c, lastSeen = now\<rparr>
                   (remotePlayers m) \<and>
               snd (receive now m d) =
                 (if Map_has (remotePlayers m) p then []
                  else call (onStatusChange m) (StatusChange (Joined n)) @
                       notifyConnectionChange (fst (receive now m d)) @
                       (if body msg = PlayerJoin p n c then [SetTimeout AnnounceTimer 50]
                        else []))) \<and>
            (body msg = PlayerUpdate player p \<longrightarrow>
               remotePlayers (fst (receive now m d)) =
                 Map_set p
                   (case Map_get (remotePlayers m) p of
                      Some existing \<Rightarrow> existing\<lparr>lastSeen := now\<rparr>
                    | None \<Rightarrow> \<lparr>info_id = p, info_name = p_name player,
                                info_color = p_color player, lastSeen = now\<rparr>)
                   (remotePlayers m) \<and>
               snd (receive now m d) =
                 (if Map_has (remotePlayers m) p then []
                  else notifyConnectionChange (fst (receive now m d))) @
                 call (onMessage m) (Message msg)) \<and>
            (body msg = LevelChange level p \<longrightarrow>
               remotePlayers (fst (receive now m d)) = remotePlayers m \<and>
               snd (receive now m d) = call (onMessage m) (Message msg)) \<and>
            (body msg = StartGame level p \<longrightarrow>
               remotePlayers (fst (receive now m d)) = remotePlayers m \<and>
               snd (receive now m d) = call (onGameStart m) (GameStart level)) \<and>
            (body msg = PlayerLeft p \<longrightarrow>
               remotePlayers (fst (receive now m d)) = Map_delete p (remotePlayers m) \<and>
               snd (receive now m d) =
                 (case Map_get (remotePlayers m) p of
                    Some leaving \<Rightarrow>
                      call (onStatusChange m) (StatusChange (Quit (info_name leaving)))
                  | None \<Rightarrow> []) @
                 notifyConnectionChange (fst (receive now m d)) @
                 call (onMessage m) (Message msg)) \<and>
            (onMessage m \<and>
             (body msg = PlayerUpdate player p \<or> body msg = LevelChange level p \<or>
              body msg = PlayerLeft p) \<longrightarrow>
               snd (receive now m d) \<noteq> [] \<and> last (snd (receive now m d)) = Message msg) \<and>
            (onGameStart m \<and> body msg = StartGame level p \<longrightarrow>
               snd (receive now m d) = [GameStart level])) \<and>
         (carried d' = Some msg' \<and> bearsId msg' i \<and> Set_has (seenMessageIds m') i \<longrightarrow>
            receive now' m' d' = (m', [])) \<and>
         (inbound m d = Some msg \<and> carried d' = Some msg' \<and> bearsId msg' i \<longrightarrow>
            receive now' (fst (receive now m d)) d' = (fst (receive now m d), []))"
proof -
  have id: "msgId msg = Some i" and tr: "truthy i" using assms by (simp_all add: bearsId_def)
  let ?m = "m\<lparr>seenMessageIds := rememberMessageId (seenMessageIds m) i\<rparr>"
  have first: "receive now m d = handleIncomingMessage now ?m msg \<and>
            Set_has (seenMessageIds (fst (receive now m d))) i"
    if "inbound m d = Some msg" and "\<not> Set_has (seenMessageIds m) i"
  proof -
    have r: "receive now m d = handleIncomingMessage now ?m msg"
      using that(1) assms that(2) by (rule receive_first)
    have "i \<in> set (rememberMessageId (seenMessageIds m) i)"
      using that(2) by (simp add: remember_member Set_has_def)
    then show ?thesis using r by (simp add: handle_seen Set_has_def)
  qed
  have effect:
    "(body msg = PlayerJoin p n c \<or> body msg = Heartbeat p n c \<longrightarrow>
               remotePlayers (fst (receive now m d)) =
                 Map_set p \<lparr>info_id = p, info_name = n, info_color = c, lastSeen = now\<rparr>
                   (remotePlayers m) \<and>
               snd (receive now m d) =
                 (if Map_has (remotePlayers m) p then []
                  else call (onStatusChange m) (StatusChange (Joined n)) @
                       notifyConnectionChange (fst (receive now m d)) @
                       (if body msg = PlayerJoin p n c then [SetTimeout AnnounceTimer 50]
                        else []))) \<and>
            (body msg = PlayerUpdate player p \<longrightarrow>
               remotePlayers (fst (receive now m d)) =
                 Map_set p
                   (case Map_get (remotePlayers m) p of
                      Some existing \<Rightarrow> existing\<lparr>lastSeen := now\<rparr>
                    | None \<Rightarrow> \<lparr>info_id = p, info_name = p_name player,
                                info_color = p_color player, lastSeen = now\<rparr>)
                   (remotePlayers m) \<and>
               snd (receive now m d) =
                 (if Map_has (remotePlayers m) p then []
                  else notifyConnectionChange (fst (receive now m d))) @
                 call (onMessage m) (Message msg)) \<and>
            (body msg = LevelChange level p \<longrightarrow>
               remotePlayers (fst (receive now m d)) = remotePlayers m \<and>
               snd (receive now m d) = call (onMessage m) (Message msg)) \<and>
            (body msg = StartGame level p \<longrightarrow>
               remotePlayers (fst (receive now m d)) = remotePlayers m \<and>
               snd (receive now m d) = call (onGameStart m) (GameStart level)) \<and>
            (body msg = PlayerLeft p \<longrightarrow>
               remotePlayers (fst (receive now m d)) = Map_delete p (remotePlayers m) \<and>
               snd (receive now m d) =
                 (case Map_get (remotePlayers m) p of
                    Some leaving \<Rightarrow>
                      call (onStatusChange m) (StatusChange (Quit (info_name leaving)))
                  | None \<Rightarrow> []) @
                 notifyConnectionChange (fst (receive now m d)) @
                 call (onMessage m) (Message msg)) \<and>
            (onMessage m \<and>
             (body msg = PlayerUpdate player p \<or> body msg = LevelChange level p \<or>
              body msg = PlayerLeft p) \<longrightarrow>
               snd (receive now m d) \<noteq> [] \<and> last (snd (receive now m d)) = Message msg) \<and>
            (onGameStart m \<and> body msg = StartGame level p \<longrightarrow>
               snd (receive now m d) = [GameStart level])"
    if inb: "inbound m d = Some msg" and new: "\<not> Set_has (seenMessageIds m) i"
      and oth: "peerIdOf (body msg) \<noteq> peerId m"
  proof -
    have r: "receive now m d = handleIncomingMessage now ?m msg"
      using inb assms new by (rule receive_first)
    have other: "peerIdOf (body msg) \<noteq> peerId ?m" using oth by simp
    have join: "remotePlayers (fst (receive now m d)) =
                 Map_set p \<lparr>info_id = p, info_name = n, info_color = c, lastSeen = now\<rparr>
                   (remotePlayers m) \<and>
               snd (receive now m d) =
                 (if Map_has (remotePlayers m) p then []
                  else call (onStatusChange m) (StatusChange (Joined n)) @
                       notifyConnectionChange (fst (receive now m d)) @
                       (if body msg = PlayerJoin p n c then [SetTimeout AnnounceTimer 50]
                        else []))"
      if b: "body msg = PlayerJoin p n c \<or> body msg = Heartbeat p n c"
    proof -
      have "p \<noteq> peerId ?m" using other b by auto
      then have "handleIncomingMessage now ?m msg =
                 handleJoinOrHeartbeat now ?m p n c (body msg = PlayerJoin p n c)"
        using b by (rule handle_join_or_heartbeat)
      then show ?thesis by (simp add: r handleJoinOrHeartbeat_def Let_def)
    qed
    have update: "remotePlayers (fst (receive now m d)) =
                 Map_set p
                   (case Map_get (remotePlayers m) p of
                      Some existing \<Rightarrow> existing\<lparr>lastSeen := now\<rparr>
                    | None \<Rightarrow> \<lparr>info_id = p, info_name = p_name player,
                                info_color = p_color player, lastSeen = now\<rparr>)
                   (remotePlayers m) \<and>
               snd (receive now m d) =
                 (if Map_has (remotePlayers m) p then []
                  else notifyConnectionChange (fst (receive now m d))) @
                 call (onMessage m) (Message msg)"
      if b: "body msg = PlayerUpdate player p"
    proof (cases "Map_get (remotePlayers m) p")
      case None
      have "p \<noteq> peerId ?m" using other b by auto
      then show ?thesis
        using handle_update_unknown [of p ?m msg player now] b None
        by (simp add: r Map_has_def)
    next
      case (Some existing)
      have "p \<noteq> peerId ?m" using other b by auto
      then show ?thesis
        using handle_update_known [of p ?m msg player existing now] b Some
        by (simp add: r Map_has_def)
    qed
    have level: "remotePlayers (fst (receive now m d)) = remotePlayers m \<and>
               snd (receive now m d) = call (onMessage m) (Message msg)"
      if b: "body msg = LevelChange level p"
      using other b by (simp add: r handleIncomingMessage_def)
    have start: "remotePlayers (fst (receive now m d)) = remotePlayers m \<and>
               snd (receive now m d) = call (onGameStart m) (GameStart level)"
      if b: "body msg = StartGame level p"
      using other b by (simp add: r handleIncomingMessage_def)
    have left: "remotePlayers (fst (receive now m d)) = Map_delete p (remotePlayers m) \<and>
               snd (receive now m d) =
                 (case Map_get (remotePlayers m) p of
                    Some leaving \<Rightarrow>
                      call (onStatusChange m) (StatusChange (Quit (info_name leaving)))
                  | None \<Rightarrow> []) @
                 notifyConnectionChange (fst (receive now m d)) @
                 call (onMessage m) (Message msg)"
      if b: "body msg = PlayerLeft p"
      using other b by (simp add: r handleIncomingMessage_def Let_def split: option.splits)
    have handed: "snd (receive now m d) \<noteq> [] \<and> last (snd (receive now m d)) = Message msg"
      if h: "onMessage m" and b: "body msg = PlayerUpdate player p \<or>
              body msg = LevelChange level p \<or> body msg = PlayerLeft p"
    proof -
      have "\<exists>pre. snd (receive now m d) = pre @ [Message msg]"
      proof -
        consider (u) "body msg = PlayerUpdate player p" | (l) "body msg = LevelChange level p"
          | (q) "body msg = PlayerLeft p" using b by blast
        then show ?thesis
        proof cases
          case u
          then show ?thesis using update h by (simp add: call_def)
        next
          case l
          then show ?thesis using level h by (simp add: call_def)
        next
          case q
          have "snd (receive now m d) =
                ((case Map_get (remotePlayers m) p of
                    Some leaving \<Rightarrow>
                      call (onStatusChange m) (StatusChange (Quit (info_name leaving)))
                  | None \<Rightarrow> []) @
                 notifyConnectionChange (fst (receive now m d))) @ [Message msg]"
            using left [OF q] h by (simp add: call_def)
          then show ?thesis by blast
        qed
      qed
      then obtain pre where "snd (receive now m d) = pre @ [Message msg]" by blast
      then show ?thesis by simp
    qed
    have started: "snd (receive now m d) = [GameStart level]"
      if "onGameStart m" and "body msg = StartGame level p"
      using start that by (simp add: call_def)
    show ?thesis using join update level start left handed started by blast
  qed
  have later: "receive now' m' d' = (m', [])"
    if "carried d' = Some msg'" and "bearsId msg' i" and "Set_has (seenMessageIds m') i"
    for m' now'
    using that by (simp add: receive_duplicate duplicate_def bearsId_def)
  have twice: "receive now' (fst (receive now m d)) d' = (fst (receive now m d), [])"
    if a: "inbound m d = Some msg" and b: "carried d' = Some msg'" and c: "bearsId msg' i"
  proof (cases "Set_has (seenMessageIds m) i")
    case True
    then have "receive now m d = (m, [])"
      using a id tr inbound_carried [OF a] by (simp add: receive_duplicate duplicate_def)
    then show ?thesis using later [OF b c True] by simp
  next
    case False
    have "Set_has (seenMessageIds (fst (receive now m d))) i"
      using first [OF a False] by (rule conjunct2)
    then show ?thesis by (rule later [OF b c])
  qed
  show ?thesis using first effect later twice by blast
qed

theorem first_delivery_processed_later_dropped_witness:
  "bearsId demoHeartbeat ''p-dan-5000-zzzz'' \<and>
   inbound demoManager (ViaChannel demoHeartbeat) = Some demoHeartbeat \<and>
   \<not> Set_has (seenMessageIds demoManager) ''p-dan-5000-zzzz'' \<and>
   peerIdOf (body demoHeartbeat) \<noteq> peerId demoManager \<and>
   body demoHeartbeat = Heartbeat ''p-dan'' ''Dan'' ''pink'' \<and>
   Set_has (seenMessageIds (fst (receive 5000 demoManager (ViaChannel demoHeartbeat))))
     ''p-dan-5000-zzzz'' \<and>
   remotePlayers (fst (receive 5000 demoManager (ViaChannel demoHeartbeat))) =
     [bobEntry, cyEntry,
      (''p-dan'', \<lparr>info_id = ''p-dan'', info_name = ''Dan'', info_color = ''pink'',
                   lastSeen = 5000\<rparr>)] \<and>
   snd (receive 5000 demoManager (ViaChannel demoHeartbeat)) =
     [StatusChange (Joined ''Dan''), ConnectionChange 3,
      PlayerListChange
        [snd bobEntry, snd cyEntry,
         \<lparr>info_id = ''p-dan'', info_name = ''Dan'', info_color = ''pink'', lastSeen = 5000\<rparr>]] \<and>
   carried (ViaStorage (demoStorageEvent demoHeartbeat)) = Some demoHeartbeat \<and>
   receive 5001 (fst (receive 5000 demoManager (ViaChannel demoHeartbeat)))
     (ViaStorage (demoStorageEvent demoHeartbeat)) =
   (fst (receive 5000 demoManager (ViaChannel demoHeartbeat)), []) \<and>
   bearsId bobLevelChange ''p-bob-5000-llll'' \<and>
   inbound demoManager (ViaChannel bobLevelChange) = Some bobLevelChange \<and>
   \<not> Set_has (seenMessageIds demoManager) ''p-bob-5000-llll'' \<and>
   peerIdOf (body bobLevelChange) \<noteq> peerId demoManager \<and>
   body bobLevelChange = LevelChange 2 ''p-bob'' \<and>
   onMessage demoManager \<and>
   snd (receive 5000 demoManager (ViaChannel bobLevelChange)) = [Message bobLevelChange] \<and>
   carried (ViaChannel bobLevelChange) = Some bobLevelChange \<and>
   receive 5001 (fst (receive 5000 demoManager (ViaChannel bobLevelChange)))
     (ViaChannel bobLevelChange) =
   (fst (receive 5000 demoManager (ViaChannel bobLevelChange)), [])"
proof -
  let ?r = "receive 5000 demoManager (ViaChannel demoHeartbeat)"
  let ?l = "receive 5000 demoManager (ViaChannel bobLevelChange)"
  have a: "bearsId demoHeartbeat ''p-dan-5000-zzzz''"
    by (simp add: bearsId_def demoHeartbeat_def truthy_def)
  have b: "inbound demoManager (ViaChannel demoHeartbeat) = Some demoHeartbeat"
    by (simp add: demoManager_def)
  have c: "\<not> Set_has (seenMessageIds demoManager) ''p-dan-5000-zzzz''"
    by (simp add: demoManager_def Set_has_def)
  have o: "peerIdOf (body demoHeartbeat) \<noteq> peerId demoManager"
    and k: "body demoHeartbeat = Heartbeat ''p-dan'' ''Dan'' ''pink''"
    by (simp_all add: demoHeartbeat_def demoManager_def)
  have d: "carried (ViaStorage (demoStorageEvent demoHeartbeat)) = Some demoHeartbeat"
    by (simp add: demoStorageEvent_def)
  have u: "\<not> Map_has (remotePlayers demoManager) ''p-dan''"
    by (simp add: demo_defs Map_has_def)
  have s: "Map_set ''p-dan''
             \<lparr>info_id = ''p-dan'', info_name = ''Dan'', info_color = ''pink'', lastSeen = 5000\<rparr>
             (remotePlayers demoManager) =
           [bobEntry, cyEntry,
            (''p-dan'', \<lparr>info_id = ''p-dan'', info_name = ''Dan'', info_color = ''pink'',
                         lastSeen = 5000\<rparr>)]"
    by (simp add: demo_defs)
  have h: "onStatusChange demoManager \<and> onConnectionChange demoManager \<and>
           onPlayerListChange demoManager \<and> onMessage demoManager"
    by (simp add: demoManager_def)
  note t = first_delivery_processed_later_dropped
      [OF a, where m = demoManager and d = "ViaChannel demoHeartbeat"
         and d' = "ViaStorage (demoStorageEvent demoHeartbeat)"
         and now = 5000 and now' = 5001 and msg' = demoHeartbeat
         and p = "''p-dan''" and n = "''Dan''" and c = "''pink''"
         and m' = "fst (receive 5000 demoManager (ViaChannel demoHeartbeat))"]
  have seen: "Set_has (seenMessageIds (fst ?r)) ''p-dan-5000-zzzz''"
    using t [THEN conjunct1] b c by blast
  have eff: "remotePlayers (fst ?r) =
               Map_set ''p-dan''
                 \<lparr>info_id = ''p-dan'', info_name = ''Dan'', info_color = ''pink'', lastSeen = 5000\<rparr>
                 (remotePlayers demoManager) \<and>
             snd ?r =
               (if Map_has (remotePlayers demoManager) ''p-dan'' then []
                else call (onStatusChange demoManager) (StatusChange (Joined ''Dan'')) @
                     notifyConnectionChange (fst ?r) @
                     (if body demoHeartbeat = PlayerJoin ''p-dan'' ''Dan'' ''pink''
                      then [SetTimeout AnnounceTimer 50] else []))"
    using t [THEN conjunct2, THEN conjunct1] b c o k by blast
  have reg: "remotePlayers (fst ?r) =
     [bobEntry, cyEntry,
      (''p-dan'', \<lparr>info_id = ''p-dan'', info_name = ''Dan'', info_color = ''pink'',
                   lastSeen = 5000\<rparr>)]"
    using eff s by simp
  have flags: "onConnectionChange (fst ?r) \<and> onPlayerListChange (fst ?r)"
    by (simp add: demo_defs handler_defs container_defs)
  have note_r: "notifyConnectionChange (fst ?r) =
     [ConnectionChange 3,
      PlayerListChange
        [snd bobEntry, snd cyEntry,
         \<lparr>info_id = ''p-dan'', info_name = ''Dan'', info_color = ''pink'', lastSeen = 5000\<rparr>]]"
    using flags reg by (simp add: notifyConnectionChange_def call_def container_defs)
  have effs: "snd ?r =
     [StatusChange (Joined ''Dan''), ConnectionChange 3,
      PlayerListChange
        [snd bobEntry, snd cyEntry,
         \<lparr>info_id = ''p-dan'', info_name = ''Dan'', info_color = ''pink'', lastSeen = 5000\<rparr>]]"
    using eff [THEN conjunct2] u h k note_r by (simp add: call_def)
  have again: "receive 5001 (fst ?r) (ViaStorage (demoStorageEvent demoHeartbeat)) = (fst ?r, [])"
    using t [THEN conjunct2, THEN conjunct2, THEN conjunct2] a b d by blast
  have a2: "bearsId bobLevelChange ''p-bob-5000-llll''"
    by (simp add: bearsId_def bobLevelChange_def truthy_def)
  have b2: "inbound demoManager (ViaChannel bobLevelChange) = Some bobLevelChange"
    by (simp add: demoManager_def)
  have c2: "\<not> Set_has (seenMessageIds demoManager) ''p-bob-5000-llll''"
    by (simp add: demoManager_def Set_has_def)
  have o2: "peerIdOf (body bobLevelChange) \<noteq> peerId demoManager"
    and k2: "body bobLevelChange = LevelChange 2 ''p-bob''"
    by (simp_all add: bobLevelChange_def demoManager_def)
  have d2: "carried (ViaChannel bobLevelChange) = Some bobLevelChange" by simp
  note t2 = first_delivery_processed_later_dropped
      [OF a2, where m = demoManager and d = "ViaChannel bobLevelChange"
         and d' = "ViaChannel bobLevelChange"
         and now = 5000 and now' = 5001 and msg' = bobLevelChange
         and p = "''p-bob''" and level = 2
         and m' = "fst (receive 5000 demoManager (ViaChannel bobLevelChange))"]
  have eff2: "snd ?l = call (onMessage demoManager) (Message bobLevelChange)"
    using t2 [THEN conjunct2, THEN conjunct1] b2 c2 o2 k2 by blast
  have effs2: "snd ?l = [Message bobLevelChange]"
    using eff2 h by (simp add: call_def)
  have again2: "receive 5001 (fst ?l) (ViaChannel bobLevelChange) = (fst ?l, [])"
    using t2 [THEN conjunct2, THEN conjunct2, THEN conjunct2] a2 b2 d2 by blast
  show ?thesis
    using a b c o k seen reg effs d again a2 b2 c2 o2 k2 h effs2 d2 again2 by blast
qed

end
